theory Spec2Isabelle
  imports Main "HOL-Library.Word"
begin

unbundle bit_operations_syntax

section \<open>Machine types and constants of gstdabplusparse.c\<close>

text \<open>
  \<open>guint8\<close>, \<open>guint16\<close> and \<open>guint\<close> are words of 8, 16 and 32 bits. A byte buffer
  (\<open>const guint8 *data\<close>) is a list of bytes; the pointer \<open>data + i\<close> is \<open>drop i data\<close>.
  Arithmetic on operands narrower than \<open>int\<close> is done at 32 bits (the integer promotion
  of C) and narrowed by \<open>ucast\<close> where the source casts or assigns to a narrower type.
\<close>

type_synonym guint8 = "8 word"
type_synonym guint16 = "16 word"
type_synonym guint = "32 word"

definition RS_CODE_SIZE :: nat where
  "RS_CODE_SIZE = 10"

definition SUPERFRAME_MIN_SIZE :: nat where
  "SUPERFRAME_MIN_SIZE = 120"

definition N_MAX :: nat where
  "N_MAX = 216"

definition SUPERFRAME_MAX_SIZE :: nat where
  "SUPERFRAME_MAX_SIZE = SUPERFRAME_MIN_SIZE * N_MAX"

definition FIRECODE_LENGTH :: nat where
  "FIRECODE_LENGTH = 11"

definition ADTS_HEADER_LENGTH :: nat where
  "ADTS_HEADER_LENGTH = 7"

definition G_MAXUINT8 :: guint8 where
  "G_MAXUINT8 = 255"

text \<open>The table \<open>gst_dabplusparse_firecode_crc_table[256]\<close>, entry by entry.\<close>

definition firecode_crc_table :: "guint16 list" where
  "firecode_crc_table = [
   0x0000, 0x782f, 0xf05e, 0x8871, 0x9893, 0xe0bc, 0x68cd, 0x10e2,
   0x4909, 0x3126, 0xb957, 0xc178, 0xd19a, 0xa9b5, 0x21c4, 0x59eb,
   0x9212, 0xea3d, 0x624c, 0x1a63, 0x0a81, 0x72ae, 0xfadf, 0x82f0,
   0xdb1b, 0xa334, 0x2b45, 0x536a, 0x4388, 0x3ba7, 0xb3d6, 0xcbf9,
   0x5c0b, 0x2424, 0xac55, 0xd47a, 0xc498, 0xbcb7, 0x34c6, 0x4ce9,
   0x1502, 0x6d2d, 0xe55c, 0x9d73, 0x8d91, 0xf5be, 0x7dcf, 0x05e0,
   0xce19, 0xb636, 0x3e47, 0x4668, 0x568a, 0x2ea5, 0xa6d4, 0xdefb,
   0x8710, 0xff3f, 0x774e, 0x0f61, 0x1f83, 0x67ac, 0xefdd, 0x97f2,
   0xb816, 0xc039, 0x4848, 0x3067, 0x2085, 0x58aa, 0xd0db, 0xa8f4,
   0xf11f, 0x8930, 0x0141, 0x796e, 0x698c, 0x11a3, 0x99d2, 0xe1fd,
   0x2a04, 0x522b, 0xda5a, 0xa275, 0xb297, 0xcab8, 0x42c9, 0x3ae6,
   0x630d, 0x1b22, 0x9353, 0xeb7c, 0xfb9e, 0x83b1, 0x0bc0, 0x73ef,
   0xe41d, 0x9c32, 0x1443, 0x6c6c, 0x7c8e, 0x04a1, 0x8cd0, 0xf4ff,
   0xad14, 0xd53b, 0x5d4a, 0x2565, 0x3587, 0x4da8, 0xc5d9, 0xbdf6,
   0x760f, 0x0e20, 0x8651, 0xfe7e, 0xee9c, 0x96b3, 0x1ec2, 0x66ed,
   0x3f06, 0x4729, 0xcf58, 0xb777, 0xa795, 0xdfba, 0x57cb, 0x2fe4,
   0x0803, 0x702c, 0xf85d, 0x8072, 0x9090, 0xe8bf, 0x60ce, 0x18e1,
   0x410a, 0x3925, 0xb154, 0xc97b, 0xd999, 0xa1b6, 0x29c7, 0x51e8,
   0x9a11, 0xe23e, 0x6a4f, 0x1260, 0x0282, 0x7aad, 0xf2dc, 0x8af3,
   0xd318, 0xab37, 0x2346, 0x5b69, 0x4b8b, 0x33a4, 0xbbd5, 0xc3fa,
   0x5408, 0x2c27, 0xa456, 0xdc79, 0xcc9b, 0xb4b4, 0x3cc5, 0x44ea,
   0x1d01, 0x652e, 0xed5f, 0x9570, 0x8592, 0xfdbd, 0x75cc, 0x0de3,
   0xc61a, 0xbe35, 0x3644, 0x4e6b, 0x5e89, 0x26a6, 0xaed7, 0xd6f8,
   0x8f13, 0xf73c, 0x7f4d, 0x0762, 0x1780, 0x6faf, 0xe7de, 0x9ff1,
   0xb015, 0xc83a, 0x404b, 0x3864, 0x2886, 0x50a9, 0xd8d8, 0xa0f7,
   0xf91c, 0x8133, 0x0942, 0x716d, 0x618f, 0x19a0, 0x91d1, 0xe9fe,
   0x2207, 0x5a28, 0xd259, 0xaa76, 0xba94, 0xc2bb, 0x4aca, 0x32e5,
   0x6b0e, 0x1321, 0x9b50, 0xe37f, 0xf39d, 0x8bb2, 0x03c3, 0x7bec,
   0xec1e, 0x9431, 0x1c40, 0x646f, 0x748d, 0x0ca2, 0x84d3, 0xfcfc,
   0xa517, 0xdd38, 0x5549, 0x2d66, 0x3d84, 0x45ab, 0xcdda, 0xb5f5,
   0x7e0c, 0x0623, 0x8e52, 0xf67d, 0xe69f, 0x9eb0, 0x16c1, 0x6eee,
   0x3705, 0x4f2a, 0xc75b, 0xbf74, 0xaf96, 0xd7b9, 0x5fc8, 0x27e7]"

section \<open>The firecode check\<close>

text \<open>
  One round of the loop body of \<open>gst_dabplusparse_check_firecode\<close>:
  \<open>guint8 pos = ((firecode >> 8) ^ data[i]);\<close>
  \<open>firecode = (guint16)((firecode << 8) ^ table[pos]);\<close>
\<close>

definition firecode_round :: "guint16 \<Rightarrow> guint8 \<Rightarrow> guint16" where
  "firecode_round firecode d =
     (let pos = (ucast (drop_bit 8 (ucast firecode :: guint) XOR ucast d) :: guint8)
      in ucast (push_bit 8 (ucast firecode :: guint)
                 XOR ucast (firecode_crc_table ! unat pos)))"

text \<open>The loop \<open>for (i = 2; i < FIRECODE_LENGTH; ++i)\<close>, entered at index \<open>i\<close>.\<close>

function firecode_loop :: "guint8 list \<Rightarrow> nat \<Rightarrow> guint16 \<Rightarrow> guint16" where
  "firecode_loop data i firecode =
     (if i < FIRECODE_LENGTH
      then firecode_loop data (i + 1) (firecode_round firecode (data ! i))
      else firecode)"
  by pat_completeness auto
termination
  by (relation "measure (\<lambda>(data, i, firecode). FIRECODE_LENGTH - i)") auto

text \<open>
  \<open>gst_dabplusparse_check_firecode\<close>. The caller ensures that \<open>data\<close> holds at least
  \<open>FIRECODE_LENGTH\<close> bytes.
\<close>

definition gst_dabplusparse_check_firecode :: "guint8 list \<Rightarrow> bool" where
  "gst_dabplusparse_check_firecode data =
     (let header_firecode =
            (ucast (push_bit 8 (ucast (data ! 0) :: guint) OR ucast (data ! 1)) :: guint16);
          firecode = firecode_loop data 2 0
      in if header_firecode \<noteq> firecode then False
         else if firecode = 0 then False
         else True)"

text \<open>
  The validator in the words of the specification: a big-endian 16-bit guard, and a
  CRC-16 taken byte by byte, most significant bit first, from the initial value 0 with no
  final XOR, over the fixed table.
\<close>

definition spec_guard_be :: "guint8 list \<Rightarrow> guint16" where
  "spec_guard_be bs = word_cat (bs ! 0) (bs ! 1)"

definition spec_crc16_round :: "guint16 \<Rightarrow> guint8 \<Rightarrow> guint16" where
  "spec_crc16_round crc b =
     push_bit 8 crc XOR firecode_crc_table ! unat (ucast (drop_bit 8 crc) XOR b)"

definition spec_crc16 :: "guint8 list \<Rightarrow> guint16" where
  "spec_crc16 bs = foldl spec_crc16_round 0 bs"

section \<open>The superframe header\<close>

text \<open>
  \<open>GstDabPlusSuperframeHeader\<close> of gstdabplusparse.h: every field is a \<open>guint\<close>, and
  \<open>au\<close> is an array of six \<open>{start, size}\<close> pairs.
\<close>

record GstDabPlusAu =
  au_start :: guint
  au_size :: guint

record GstDabPlusSuperframeHeader =
  header_firecode :: guint
  rfa :: guint
  dac_rate :: guint
  sbr_flag :: guint
  aac_channel_mode :: guint
  ps_flag :: guint
  mpeg_surround_config :: guint
  num_aus :: guint
  au :: "GstDabPlusAu list"

text \<open>The C idiom \<open>!!x\<close>: 1 when \<open>x\<close> is not zero, 0 otherwise.\<close>

definition c_not_not :: "guint \<Rightarrow> guint" where
  "c_not_not x = (if x \<noteq> 0 then 1 else 0)"

text \<open>The assignments \<open>hdr->au[i].start = v\<close> and \<open>hdr->au[i].size = v\<close>.\<close>

definition set_au_start :: "nat \<Rightarrow> guint \<Rightarrow> GstDabPlusSuperframeHeader \<Rightarrow> GstDabPlusSuperframeHeader" where
  "set_au_start i v hdr = hdr\<lparr>au := (au hdr)[i := (au hdr ! i)\<lparr>au_start := v\<rparr>]\<rparr>"

definition set_au_size :: "nat \<Rightarrow> guint \<Rightarrow> GstDabPlusSuperframeHeader \<Rightarrow> GstDabPlusSuperframeHeader" where
  "set_au_size i v hdr = hdr\<lparr>au := (au hdr)[i := (au hdr ! i)\<lparr>au_size := v\<rparr>]\<rparr>"

text \<open>Lines 353 to 359: the guard and the flags of byte 2.\<close>

definition parse_flags :: "GstDabPlusSuperframeHeader \<Rightarrow> guint8 list \<Rightarrow> GstDabPlusSuperframeHeader" where
  "parse_flags hdr data =
     hdr\<lparr>header_firecode := push_bit 8 (ucast (data ! 0)) OR ucast (data ! 1),
         rfa := c_not_not (ucast (data ! 2) AND 0x80),
         dac_rate := c_not_not (ucast (data ! 2) AND 0x40),
         sbr_flag := c_not_not (ucast (data ! 2) AND 0x20),
         aac_channel_mode := c_not_not (ucast (data ! 2) AND 0x10),
         ps_flag := c_not_not (ucast (data ! 2) AND 0x08),
         mpeg_surround_config := ucast (data ! 2) AND 0x07\<rparr>"

text \<open>Lines 361 to 377: the number of access units and the start of the first one.\<close>

definition parse_num_aus :: "GstDabPlusSuperframeHeader \<Rightarrow> GstDabPlusSuperframeHeader" where
  "parse_num_aus hdr =
     (if sbr_flag hdr \<noteq> 0 then
        (if dac_rate hdr = 0 then set_au_start 0 5 (hdr\<lparr>num_aus := 2\<rparr>)
         else set_au_start 0 6 (hdr\<lparr>num_aus := 3\<rparr>))
      else
        (if dac_rate hdr = 0 then set_au_start 0 8 (hdr\<lparr>num_aus := 4\<rparr>)
         else set_au_start 0 11 (hdr\<lparr>num_aus := 6\<rparr>)))"

text \<open>
  Lines 379 to 392: the \<open>switch\<close> on \<open>num_aus\<close>. The cases fall through, so each label
  does its own assignments and then those of the labels below it; \<open>default\<close> returns
  \<open>FALSE\<close>, which is \<open>None\<close> here.
\<close>

definition starts_case_2 :: "guint8 list \<Rightarrow> GstDabPlusSuperframeHeader \<Rightarrow> GstDabPlusSuperframeHeader" where
  "starts_case_2 data hdr =
     set_au_start 1 (push_bit 4 (ucast (data ! 3)) OR drop_bit 4 (ucast (data ! 4))) hdr"

definition starts_case_3 :: "guint8 list \<Rightarrow> GstDabPlusSuperframeHeader \<Rightarrow> GstDabPlusSuperframeHeader" where
  "starts_case_3 data hdr =
     starts_case_2 data
       (set_au_start 2 ((push_bit 8 (ucast (data ! 4)) AND 0xf00) OR ucast (data ! 5)) hdr)"

definition starts_case_4 :: "guint8 list \<Rightarrow> GstDabPlusSuperframeHeader \<Rightarrow> GstDabPlusSuperframeHeader" where
  "starts_case_4 data hdr =
     starts_case_3 data
       (set_au_start 3 (push_bit 4 (ucast (data ! 6)) OR drop_bit 4 (ucast (data ! 7))) hdr)"

definition starts_case_6 :: "guint8 list \<Rightarrow> GstDabPlusSuperframeHeader \<Rightarrow> GstDabPlusSuperframeHeader" where
  "starts_case_6 data hdr =
     starts_case_4 data
       (set_au_start 4 ((push_bit 8 (ucast (data ! 7)) AND 0xf00) OR ucast (data ! 8))
         (set_au_start 5 (push_bit 4 (ucast (data ! 9)) OR drop_bit 4 (ucast (data ! 10))) hdr))"

definition parse_au_starts :: "guint8 list \<Rightarrow> GstDabPlusSuperframeHeader \<Rightarrow> GstDabPlusSuperframeHeader option" where
  "parse_au_starts data hdr =
     (if num_aus hdr = 6 then Some (starts_case_6 data hdr)
      else if num_aus hdr = 4 then Some (starts_case_4 data hdr)
      else if num_aus hdr = 3 then Some (starts_case_3 data hdr)
      else if num_aus hdr = 2 then Some (starts_case_2 data hdr)
      else None)"

text \<open>
  Lines 394 and 395: \<open>for (i = 0; i < hdr->num_aus - 1; ++i)\<close>, entered at index \<open>i\<close>;
  the subtractions are those of \<open>guint\<close> and wrap. The loop returns the index it stops
  at, which line 398 uses.
\<close>

function au_sizes_loop :: "nat \<Rightarrow> GstDabPlusSuperframeHeader \<Rightarrow> nat \<times> GstDabPlusSuperframeHeader" where
  "au_sizes_loop i hdr =
     (if i < unat (num_aus hdr - 1)
      then au_sizes_loop (i + 1)
             (set_au_size i (au_start (au hdr ! (i + 1)) - au_start (au hdr ! i) - 2) hdr)
      else (i, hdr))"
  by pat_completeness auto
termination
  by (relation "measure (\<lambda>(i, hdr). unat (num_aus hdr - 1) - i)") (auto simp add: set_au_size_def)

declare au_sizes_loop.simps [simp del]

text \<open>
  \<open>gst_dabplusparse_parse_superframe_header\<close>. The header \<open>hdr\<close> is written in place, so
  the function takes what the caller's structure held before and returns the status with
  the structure as it is left; the caller ensures that \<open>data\<close> holds the header bytes.
\<close>

definition gst_dabplusparse_parse_superframe_header ::
  "GstDabPlusSuperframeHeader \<Rightarrow> guint8 list \<Rightarrow> guint \<Rightarrow> bool \<times> GstDabPlusSuperframeHeader" where
  "gst_dabplusparse_parse_superframe_header hdr data framesize =
     (let hdr1 = parse_num_aus (parse_flags hdr data)
      in case parse_au_starts data hdr1 of
           None \<Rightarrow> (False, hdr1)
         | Some hdr2 \<Rightarrow>
             (let (i, hdr3) = au_sizes_loop 0 hdr2;
                  aus_end = framesize - (framesize div of_nat SUPERFRAME_MIN_SIZE) * of_nat RS_CODE_SIZE
              in (True, set_au_size i (aus_end - au_start (au hdr3 ! i) - 2) hdr3)))"

text \<open>\<open>reed_solomon_parity\<close> of the specification, and the sum of the sizes of the access units.\<close>

definition reed_solomon_parity :: "guint \<Rightarrow> guint" where
  "reed_solomon_parity framesize = (framesize div 120) * 10"

definition au_sizes_sum :: "GstDabPlusSuperframeHeader \<Rightarrow> guint" where
  "au_sizes_sum hdr = sum_list (map au_size (take (unat (num_aus hdr)) (au hdr)))"

definition au_sizes_total :: "GstDabPlusSuperframeHeader \<Rightarrow> nat" where
  "au_sizes_total hdr = sum_list (map (\<lambda>a. unat (au_size a)) (take (unat (num_aus hdr)) (au hdr)))"

text \<open>
  What \<open>memset (&hdr, 0377, sizeof hdr)\<close> leaves: every byte 0xFF, so every \<open>guint\<close>
  field 0xFFFFFFFF.
\<close>

definition memset_0377_header :: GstDabPlusSuperframeHeader where
  "memset_0377_header =
     \<lparr>header_firecode = 0xFFFFFFFF, rfa = 0xFFFFFFFF, dac_rate = 0xFFFFFFFF,
      sbr_flag = 0xFFFFFFFF, aac_channel_mode = 0xFFFFFFFF, ps_flag = 0xFFFFFFFF,
      mpeg_surround_config = 0xFFFFFFFF, num_aus = 0xFFFFFFFF,
      au = replicate 6 \<lparr>au_start = 0xFFFFFFFF, au_size = 0xFFFFFFFF\<rparr>\<rparr>"

text \<open>
  \<open>gst_dabplusparse_superframe_header_compare_audio_params\<close>: the five audio fields,
  and nothing else, are compared.
\<close>

definition gst_dabplusparse_superframe_header_compare_audio_params ::
  "GstDabPlusSuperframeHeader \<Rightarrow> GstDabPlusSuperframeHeader \<Rightarrow> bool" where
  "gst_dabplusparse_superframe_header_compare_audio_params hdr1 hdr2 =
     (dac_rate hdr1 = dac_rate hdr2 \<and>
      sbr_flag hdr1 = sbr_flag hdr2 \<and>
      aac_channel_mode hdr1 = aac_channel_mode hdr2 \<and>
      ps_flag hdr1 = ps_flag hdr2 \<and>
      mpeg_surround_config hdr1 = mpeg_surround_config hdr2)"

section \<open>The parser object\<close>

datatype GstDabPlusHeaderType =
    DABPLUS_HEADER_NOT_PARSED
  | DABPLUS_HEADER_UNKNOWN
  | DABPLUS_HEADER_SUPERFRAME
  | DABPLUS_HEADER_RAW
  | DABPLUS_HEADER_ADTS

text \<open>
  \<open>struct _GstDabPlusParse\<close>. Of the embedded \<open>GstBaseParse\<close> only the minimum frame
  size is kept, which the element sets through \<open>gst_base_parse_set_min_frame_size\<close>. The
  \<open>gint\<close> fields hold small values only (-1, 0, 1, 2, 6, 8 and four sample rates) and are
  integers here.
\<close>

record GstDabPlusParse =
  min_frame_size :: guint
  object_type :: int
  sample_rate :: int
  channels :: int
  i_header_type :: GstDabPlusHeaderType
  o_header_type :: GstDabPlusHeaderType
  superframe_size :: guint
  superframe_header :: GstDabPlusSuperframeHeader

definition gst_dabplusparse_reset :: "GstDabPlusParse \<Rightarrow> GstDabPlusParse" where
  "gst_dabplusparse_reset dabplusparse =
     dabplusparse\<lparr>object_type := -1, sample_rate := -1, channels := -1,
                  i_header_type := DABPLUS_HEADER_NOT_PARSED,
                  o_header_type := DABPLUS_HEADER_NOT_PARSED,
                  superframe_size := 0,
                  superframe_header := memset_0377_header,
                  min_frame_size := of_nat (SUPERFRAME_MAX_SIZE + FIRECODE_LENGTH)\<rparr>"

section \<open>Stream detection\<close>

text \<open>
  The two scanning loops of \<open>gst_dabplusparse_detect_stream\<close> have one shape:
  \<open>for (found = FALSE, i = start; i < avail - FIRECODE_LENGTH; i++)\<close> with a \<open>break\<close> at
  the first offset whose firecode checks. The loop returns \<open>found\<close> and the value of
  \<open>i\<close> it is left with.
\<close>

function scan_firecode :: "guint8 list \<Rightarrow> nat \<Rightarrow> nat \<Rightarrow> bool \<times> nat" where
  "scan_firecode data i limit =
     (if i < limit
      then (if gst_dabplusparse_check_firecode (drop i data) then (True, i)
            else scan_firecode data (i + 1) limit)
      else (False, i))"
  by pat_completeness auto
termination
  by (relation "measure (\<lambda>(data, i, limit). limit - i)") auto

declare scan_firecode.simps [simp del]

text \<open>
  \<open>gst_dabplusparse_detect_stream\<close>. It returns the status, the parser object as it is
  left, and \<open>*skipsize\<close> (a \<open>gint\<close>; the assignment \<open>*skipsize = i\<close> converts the
  \<open>guint\<close> \<open>i\<close>, which \<open>sint\<close> writes out). \<open>avail\<close> is a \<open>guint\<close>; the loop index stays
  below \<open>avail - FIRECODE_LENGTH\<close>, so it is a natural number here.
\<close>

definition gst_dabplusparse_detect_stream ::
  "GstDabPlusParse \<Rightarrow> guint8 list \<Rightarrow> guint \<Rightarrow> int \<Rightarrow> bool \<times> GstDabPlusParse \<times> int" where
  "gst_dabplusparse_detect_stream dabplusparse data avail skipsize =
     (if unat avail < SUPERFRAME_MAX_SIZE + FIRECODE_LENGTH
      then (False,
            dabplusparse\<lparr>min_frame_size := of_nat (SUPERFRAME_MAX_SIZE + FIRECODE_LENGTH)\<rparr>,
            skipsize)
      else
        (let (found, i) = scan_firecode data 0 (unat (avail - of_nat FIRECODE_LENGTH))
         in if \<not> found \<or> i \<noteq> 0 then (False, dabplusparse, sint (of_nat i :: guint))
            else
              (let offsets0 = (of_nat i :: guint);
                   (found, i) = scan_firecode data SUPERFRAME_MIN_SIZE
                                  (unat (avail - of_nat FIRECODE_LENGTH))
               in if \<not> found then (False, dabplusparse, sint (of_nat i :: guint))
                  else
                    (let offsets1 = (of_nat i :: guint);
                         sf_size = offsets1 - offsets0
                     in if sf_size mod of_nat SUPERFRAME_MIN_SIZE \<noteq> 0
                        then (False, dabplusparse, sint (of_nat i :: guint))
                        else (True,
                              dabplusparse\<lparr>superframe_size := sf_size,
                                           min_frame_size := sf_size\<rparr>,
                              skipsize)))))"

section \<open>ADTS headers\<close>

text \<open>
  \<open>gst_dabplusparse_get_audio_profile_object_type\<close> reads the \<open>profile\<close> string of the
  current caps of the source pad; the string (or its absence) is the argument here.
\<close>

definition gst_dabplusparse_get_audio_profile_object_type :: "string option \<Rightarrow> guint8" where
  "gst_dabplusparse_get_audio_profile_object_type profile =
     (case profile of
        None \<Rightarrow> G_MAXUINT8
      | Some p \<Rightarrow>
          if p = ''main'' then 0
          else if p = ''lc'' then 1
          else if p = ''ssr'' then 2
          else if p = ''ltp'' then 3
          else G_MAXUINT8)"

definition gst_dabplusparse_get_audio_channel_configuration :: "int \<Rightarrow> guint8" where
  "gst_dabplusparse_get_audio_channel_configuration num_channels =
     (if num_channels \<ge> 1 \<and> num_channels \<le> 6 then word_of_int num_channels
      else if num_channels = 8 then 7
      else G_MAXUINT8)"

definition gst_dabplusparse_get_audio_sampling_frequency_index :: "int \<Rightarrow> guint8" where
  "gst_dabplusparse_get_audio_sampling_frequency_index rate =
     (if rate = 96000 then 0x0
      else if rate = 88200 then 0x1
      else if rate = 64000 then 0x2
      else if rate = 48000 then 0x3
      else if rate = 44100 then 0x4
      else if rate = 32000 then 0x5
      else if rate = 24000 then 0x6
      else if rate = 22050 then 0x7
      else if rate = 16000 then 0x8
      else if rate = 12000 then 0x9
      else if rate = 11025 then 0xA
      else if rate = 8000 then 0xB
      else if rate = 7350 then 0xC
      else G_MAXUINT8)"

text \<open>
  The four places where \<open>gst_dabplusparse_prepend_adts_headers\<close> returns \<open>FALSE\<close>, told
  apart by the message each logs: "unsupported audio profile or object type",
  "unsupported number of channels", "unsupported sampling frequency" and
  "frame size is too big for adts".
\<close>

datatype adts_error =
    UnsupportedAudioProfile
  | UnsupportedChannelCount
  | UnsupportedSampleRate
  | FrameTooLarge

text \<open>
  The seven bytes written to \<open>adts_headers\<close>. The \<open>guint8\<close> operands are promoted to
  32 bits and the result of each expression is narrowed on assignment; \<open>frame_size\<close> is
  a \<open>gsize\<close>, the size of a buffer in memory plus 7, and a natural number here; the
  variable \<open>id\<close> of the source is \<open>mpeg_id\<close>.
\<close>

definition adts_headers :: "guint8 \<Rightarrow> guint8 \<Rightarrow> guint8 \<Rightarrow> guint8 \<Rightarrow> nat \<Rightarrow> guint8 list" where
  "adts_headers mpeg_id profile sampling_frequency_index channel_configuration frame_size =
     [0xFF,
      ucast (0xF0 OR push_bit 3 (ucast mpeg_id :: guint) OR 0x1),
      ucast (push_bit 6 (ucast profile :: guint)
             OR push_bit 2 (ucast sampling_frequency_index :: guint)
             OR 0x2
             OR (ucast channel_configuration AND 0x4)),
      ucast (push_bit 6 (ucast channel_configuration AND 0x3 :: guint)
             OR 0x30
             OR ucast (word_of_nat (drop_bit 11 frame_size) :: guint8)),
      word_of_nat (drop_bit 3 frame_size AND 0x00FF),
      word_of_nat (push_bit 5 (frame_size AND 0x0007) + 0x1F),
      0xFC]"

text \<open>
  \<open>gst_dabplusparse_prepend_adts_headers\<close>: \<open>profile\<close> is the profile string of the
  current source caps, \<open>buffer\<close> the bytes of \<open>frame->buffer\<close>; the result is the error or
  the bytes of \<open>frame->out_buffer\<close>.
\<close>

definition gst_dabplusparse_prepend_adts_headers ::
  "string option \<Rightarrow> GstDabPlusParse \<Rightarrow> guint8 list \<Rightarrow> adts_error + guint8 list" where
  "gst_dabplusparse_prepend_adts_headers profile_string dabplusparse buffer =
     (let mpeg_id = (0x0 :: guint8);
          profile = gst_dabplusparse_get_audio_profile_object_type profile_string
      in if profile = G_MAXUINT8 then Inl UnsupportedAudioProfile
         else
           (let channel_configuration =
                  gst_dabplusparse_get_audio_channel_configuration (channels dabplusparse)
            in if channel_configuration = G_MAXUINT8 then Inl UnsupportedChannelCount
               else
                 (let sampling_frequency_index =
                        gst_dabplusparse_get_audio_sampling_frequency_index (sample_rate dabplusparse)
                  in if sampling_frequency_index = G_MAXUINT8 then Inl UnsupportedSampleRate
                     else
                       (let buf_size = length buffer;
                            frame_size = buf_size + ADTS_HEADER_LENGTH
                        in if frame_size \<ge> 0x4000 then Inl FrameTooLarge
                           else Inr (adts_headers mpeg_id profile sampling_frequency_index
                                       channel_configuration frame_size @ buffer)))))"

section \<open>The host: GStreamer calls whose results the element acts on\<close>

datatype GstFlowReturn =
    GST_FLOW_OK
  | GST_FLOW_NOT_LINKED
  | GST_FLOW_FLUSHING
  | GST_FLOW_EOS
  | GST_FLOW_NOT_NEGOTIATED
  | GST_FLOW_ERROR
  | GST_FLOW_NOT_SUPPORTED

text \<open>
  The fields of the source caps that \<open>gst_dabplusparse_set_src_caps\<close> sets itself
  (\<open>mpegversion\<close> is always 4 and \<open>framed\<close> always true).
\<close>

record src_caps =
  caps_channels :: "int option"
  caps_stream_format :: "string option"
  caps_codec_data :: "guint8 list option"

text \<open>
  What the GStreamer library answers during one call of the frame handler:
  \<open>GST_BASE_PARSE_DRAINING\<close>, \<open>gst_codec_utils_aac_get_index_from_sample_rate\<close>,
  \<open>gst_caps_can_intersect\<close> against the allowed caps of the source pad,
  \<open>gst_pad_set_caps\<close>, the \<open>profile\<close> string of the current source caps, and
  \<open>gst_base_parse_finish_frame\<close> for the access unit with a given index and for the
  superframe itself.
\<close>

record host =
  draining :: bool
  aac_get_index_from_sample_rate :: "int \<Rightarrow> int"
  caps_can_intersect :: "src_caps \<Rightarrow> bool"
  pad_set_caps :: "src_caps \<Rightarrow> bool"
  caps_profile :: "string option"
  finish_au_frame :: "nat \<Rightarrow> guint8 list \<Rightarrow> GstFlowReturn"
  finish_superframe :: GstFlowReturn

text \<open>
  \<open>gst_buffer_copy_region (buffer, GST_BUFFER_COPY_ALL, offset, size)\<close> of GStreamer:
  the region must lie inside the buffer, otherwise the call returns \<open>NULL\<close>.
\<close>

definition gst_buffer_copy_region :: "guint8 list \<Rightarrow> nat \<Rightarrow> nat \<Rightarrow> guint8 list option" where
  "gst_buffer_copy_region buffer offset sz =
     (if offset + sz \<le> length buffer then Some (take sz (drop offset buffer)) else None)"

section \<open>Source caps\<close>

text \<open>
  \<open>gst_dabplusparse_set_src_caps\<close>: the result, and the parser object as it is left
  (\<open>o_header_type\<close> is written while the formats are tried).
\<close>

definition gst_dabplusparse_set_src_caps :: "host \<Rightarrow> GstDabPlusParse \<Rightarrow> bool \<times> GstDabPlusParse" where
  "gst_dabplusparse_set_src_caps env dabplusparse =
     (let sample_rate_idx = aac_get_index_from_sample_rate env (sample_rate dabplusparse)
      in if sample_rate_idx < 0 then (False, dabplusparse)
         else
           (let codec_data =
                  (word_of_int (push_bit 11 (object_type dabplusparse)
                                OR push_bit 7 sample_rate_idx
                                OR push_bit 3 (channels dabplusparse)) :: guint16);
                codec_data_table = [ucast (drop_bit 8 codec_data), ucast codec_data :: guint8];
                s_adts = \<lparr>caps_channels =
                            (if channels dabplusparse > 0 then Some (channels dabplusparse) else None),
                          caps_stream_format = Some ''adts'',
                          caps_codec_data = None\<rparr>
            in if caps_can_intersect env s_adts
               then (pad_set_caps env s_adts,
                     dabplusparse\<lparr>o_header_type := DABPLUS_HEADER_ADTS\<rparr>)
               else
                 (let s_raw = s_adts\<lparr>caps_stream_format := Some ''raw''\<rparr>
                  in if caps_can_intersect env s_raw
                     then (pad_set_caps env (s_raw\<lparr>caps_codec_data := Some codec_data_table\<rparr>),
                           dabplusparse\<lparr>o_header_type := DABPLUS_HEADER_RAW\<rparr>)
                     else (pad_set_caps env (s_raw\<lparr>caps_stream_format := None\<rparr>),
                           dabplusparse\<lparr>o_header_type := DABPLUS_HEADER_UNKNOWN\<rparr>))))"

section \<open>The frame handler\<close>

text \<open>
  Lines 939 to 966 of \<open>gst_dabplusparse_handle_frame\<close>: the audio parameters that the
  handler writes into the parser object when the header differs from the stored one
  (\<open>sint\<close> is the conversion of the \<open>guint\<close> sum to the \<open>gint\<close> field).
\<close>

definition resolve_audio_params :: "GstDabPlusParse \<Rightarrow> GstDabPlusSuperframeHeader \<Rightarrow> GstDabPlusParse" where
  "resolve_audio_params dabplusparse hdr =
     (let p1 = (if sbr_flag hdr \<noteq> 0 then dabplusparse\<lparr>object_type := 1\<rparr>
                else dabplusparse\<lparr>object_type := 1\<rparr>);
          p2 = (if dac_rate hdr \<noteq> 0
                then p1\<lparr>sample_rate := (if sbr_flag hdr \<noteq> 0 then 24000 else 48000)\<rparr>
                else p1\<lparr>sample_rate := (if sbr_flag hdr \<noteq> 0 then 16000 else 32000)\<rparr>)
      in if mpeg_surround_config hdr > 0
         then (if mpeg_surround_config hdr = 1 then p2\<lparr>channels := 6\<rparr>
               else if mpeg_surround_config hdr = 2 then p2\<lparr>channels := 8\<rparr>
               else p2\<lparr>channels := 0\<rparr>)
         else p2\<lparr>channels := sint (aac_channel_mode hdr + 1)\<rparr>)"

text \<open>
  How a call of the handler ends: it returns a flow value, or it passes the \<open>NULL\<close> of a
  failed \<open>gst_buffer_copy_region\<close> to \<open>GST_BUFFER_FLAG_UNSET\<close>, which dereferences it.
\<close>

datatype outcome = Returns GstFlowReturn | NullBufferDereference

text \<open>
  What a call leaves behind: the outcome, \<open>*skipsize\<close>, the parser object, the result
  of \<open>gst_dabplusparse_set_src_caps\<close> when the call reached it, the output buffers handed
  to \<open>gst_base_parse_finish_frame\<close> for access units, in order, and the size with which
  the superframe itself was finished, when it was.
\<close>

record handle_result =
  ret :: outcome
  skip :: int
  parser :: GstDabPlusParse
  src_caps_set :: "bool option"
  finished :: "guint8 list list"
  consumed :: "guint option"

text \<open>
  The body of the loop of lines 982 to 1006 for the access unit with index \<open>i\<close>: the
  region of the unit is copied; in ADTS mode the header is prepended, which may fail;
  the output buffer is handed to \<open>gst_base_parse_finish_frame\<close>, which answers with a
  flow value.
\<close>

datatype au_result =
    AuNullBuffer
  | AuHeaderFailed adts_error
  | AuFinished "guint8 list" GstFlowReturn

definition emit_au ::
  "host \<Rightarrow> GstDabPlusParse \<Rightarrow> GstDabPlusSuperframeHeader \<Rightarrow> guint8 list \<Rightarrow> nat \<Rightarrow> au_result" where
  "emit_au env dabplusparse hdr buffer i =
     (case gst_buffer_copy_region buffer (unat (au_start (au hdr ! i))) (unat (au_size (au hdr ! i))) of
        None \<Rightarrow> AuNullBuffer
      | Some au_buffer \<Rightarrow>
          (case (if o_header_type dabplusparse = DABPLUS_HEADER_ADTS
                 then gst_dabplusparse_prepend_adts_headers (caps_profile env) dabplusparse au_buffer
                 else Inr au_buffer) of
             Inl e \<Rightarrow> AuHeaderFailed e
           | Inr out_buffer \<Rightarrow> AuFinished out_buffer (finish_au_frame env i out_buffer)))"

text \<open>
  The loop itself, entered at index \<open>i\<close> with the buffers finished so far: it stops with
  an outcome when a step fails (a failed header returns \<open>GST_FLOW_ERROR\<close>, a flow value
  other than \<open>GST_FLOW_OK\<close> is returned as it is), and with \<open>None\<close> when it runs to its
  end.
\<close>

function emit_aus ::
  "host \<Rightarrow> GstDabPlusParse \<Rightarrow> GstDabPlusSuperframeHeader \<Rightarrow> guint8 list \<Rightarrow> nat \<Rightarrow>
   guint8 list list \<Rightarrow> outcome option \<times> guint8 list list" where
  "emit_aus env dabplusparse hdr buffer i done_bufs =
     (if i < unat (num_aus hdr) then
        (case emit_au env dabplusparse hdr buffer i of
           AuNullBuffer \<Rightarrow> (Some NullBufferDereference, done_bufs)
         | AuHeaderFailed e \<Rightarrow> (Some (Returns GST_FLOW_ERROR), done_bufs)
         | AuFinished out_buffer r \<Rightarrow>
             if r \<noteq> GST_FLOW_OK then (Some (Returns r), done_bufs @ [out_buffer])
             else emit_aus env dabplusparse hdr buffer (i + 1) (done_bufs @ [out_buffer]))
      else (None, done_bufs))"
  by pat_completeness auto
termination
  by (relation "measure (\<lambda>(env, dabplusparse, hdr, buffer, i, done_bufs). unat (num_aus hdr) - i)") auto

declare emit_aus.simps [simp del]

text \<open>
  Lines 880 to 920: the \<open>do { ... } while (0)\<close> block and the test after it. \<open>Inl\<close> is a
  call that returns there; \<open>Inr\<close> carries on with the parser object and the decoded
  header. \<open>uninit\<close> is what the local \<open>superframe_header\<close> holds before it is written.
  \<open>map.size\<close> is a \<open>gsize\<close> and is narrowed to the \<open>guint\<close> parameter \<open>avail\<close>.
\<close>

definition handle_frame_sync ::
  "host \<Rightarrow> GstDabPlusParse \<Rightarrow> guint8 list \<Rightarrow> GstDabPlusSuperframeHeader \<Rightarrow>
   handle_result + GstDabPlusParse \<times> GstDabPlusSuperframeHeader \<times> int" where
  "handle_frame_sync env dabplusparse data uninit =
     (let (status, p1, skipsize) =
            (if i_header_type dabplusparse \<noteq> DABPLUS_HEADER_SUPERFRAME then
               (let (status, p0, skipsize) =
                      gst_dabplusparse_detect_stream dabplusparse data (of_nat (length data)) 0
                in if \<not> status then (False, p0, skipsize)
                   else (True,
                         p0\<lparr>i_header_type := DABPLUS_HEADER_SUPERFRAME,
                            o_header_type := DABPLUS_HEADER_ADTS\<rparr>,
                         skipsize))
             else (True, dabplusparse, 0));
          stop = (\<lambda>r p. Inl \<lparr>ret = Returns r, skip = skipsize, parser = p,
                              src_caps_set = None, finished = [], consumed = None\<rparr>)
      in if \<not> status then stop GST_FLOW_OK p1
         else if \<not> (length data \<ge> unat (superframe_size p1)) then
           (if \<not> draining env then stop GST_FLOW_ERROR p1 else stop GST_FLOW_OK p1)
         else if \<not> gst_dabplusparse_check_firecode data then
           stop GST_FLOW_OK (gst_dabplusparse_reset p1)
         else
           (case gst_dabplusparse_parse_superframe_header uninit data (superframe_size p1) of
              (False, hdr) \<Rightarrow> stop GST_FLOW_OK (gst_dabplusparse_reset p1)
            | (True, hdr) \<Rightarrow> Inr (p1, hdr, skipsize)))"

text \<open>
  Lines 922 to 974: the decoded header is compared with the stored one and stored; when
  the audio parameters differ, they are resolved and the source caps are set. The result
  of \<open>gst_dabplusparse_set_src_caps\<close> (when it was called) and the parser object as it
  is left.
\<close>

definition handle_frame_caps ::
  "host \<Rightarrow> GstDabPlusParse \<Rightarrow> GstDabPlusSuperframeHeader \<Rightarrow> bool option \<times> GstDabPlusParse" where
  "handle_frame_caps env p1 hdr =
     (let status = gst_dabplusparse_superframe_header_compare_audio_params
                     hdr (superframe_header p1);
          p2 = p1\<lparr>superframe_header := hdr\<rparr>
      in if \<not> status
         then (let (res, p) = gst_dabplusparse_set_src_caps env (resolve_audio_params p2 hdr)
               in (Some res, p))
         else (None, p2))"

text \<open>
  \<open>gst_dabplusparse_handle_frame\<close>: the block above, the caps, the test of the output
  type (lines 976 to 980), the loop over the access units, and the superframe finished
  with its size (lines 1008 and 1009).
\<close>

definition gst_dabplusparse_handle_frame ::
  "host \<Rightarrow> GstDabPlusParse \<Rightarrow> guint8 list \<Rightarrow> GstDabPlusSuperframeHeader \<Rightarrow> handle_result" where
  "gst_dabplusparse_handle_frame env dabplusparse data uninit =
     (case handle_frame_sync env dabplusparse data uninit of
        Inl r \<Rightarrow> r
      | Inr (p1, hdr, skipsize) \<Rightarrow>
          (let (caps_res, p3) = handle_frame_caps env p1 hdr
           in if caps_res = Some False
              then \<lparr>ret = Returns GST_FLOW_NOT_LINKED, skip = skipsize, parser = p3,
                    src_caps_set = caps_res, finished = [], consumed = None\<rparr>
              else if o_header_type p3 \<noteq> DABPLUS_HEADER_ADTS \<and> o_header_type p3 \<noteq> DABPLUS_HEADER_RAW
              then \<lparr>ret = Returns GST_FLOW_NOT_LINKED, skip = skipsize, parser = p3,
                    src_caps_set = caps_res, finished = [], consumed = None\<rparr>
              else
                (case emit_aus env p3 hdr data 0 [] of
                   (Some r, bufs) \<Rightarrow>
                     \<lparr>ret = r, skip = skipsize, parser = p3,
                      src_caps_set = caps_res, finished = bufs, consumed = None\<rparr>
                 | (None, bufs) \<Rightarrow>
                     \<lparr>ret = Returns (finish_superframe env), skip = skipsize, parser = p3,
                      src_caps_set = caps_res, finished = bufs,
                      consumed = Some (superframe_size p3)\<rparr>)))"



section \<open>Vocabulary of the proofs\<close>

text \<open>
  The two shapes of a packed 12-bit start offset (lines 381 to 388), the end of the
  access units (line 397), and the two sums a header's sizes add up to: modulo
  \<open>2 ^ 32\<close>, as the \<open>guint\<close> fields do, and as natural numbers.
\<close>

definition start_hi :: "guint8 \<Rightarrow> guint8 \<Rightarrow> guint" where
  "start_hi a b = push_bit 4 (ucast a) OR drop_bit 4 (ucast b)"

definition start_lo :: "guint8 \<Rightarrow> guint8 \<Rightarrow> guint" where
  "start_lo a b = (push_bit 8 (ucast a) AND 0xf00) OR ucast b"

definition aus_end :: "guint \<Rightarrow> guint" where
  "aus_end framesize = framesize - (framesize div 120) * 10"

text \<open>
  The offsets of a decoded header are in order when each access unit leaves room for the
  two bytes that follow it before the next one starts, and the last one before the
  parity bytes: then no subtraction of lines 395 and 398 wraps.
\<close>

definition starts_in_order :: "GstDabPlusSuperframeHeader \<Rightarrow> guint \<Rightarrow> bool" where
  "starts_in_order hdr framesize =
     ((\<forall>i < unat (num_aus hdr) - 1.
         unat (au_start (au hdr ! i)) + 2 \<le> unat (au_start (au hdr ! (i + 1)))) \<and>
      unat (au_start (au hdr ! (unat (num_aus hdr) - 1))) + 2
        \<le> unat framesize - unat (reed_solomon_parity framesize))"

text \<open>What the proofs show of a decoded header \<open>h\<close> of a superframe of \<open>fs\<close> bytes.\<close>

definition au_props :: "GstDabPlusSuperframeHeader \<Rightarrow> guint \<Rightarrow> bool" where
  "au_props h fs =
    ((\<forall>i. i + 1 < unat (num_aus h) \<longrightarrow>
         au_size (au h ! i) = au_start (au h ! (i + 1)) - au_start (au h ! i) - 2) \<and>
     au_size (au h ! (unat (num_aus h) - 1)) =
       (fs - reed_solomon_parity fs) - au_start (au h ! (unat (num_aus h) - 1)) - 2 \<and>
     au_sizes_sum h + 2 * num_aus h + au_start (au h ! 0) + reed_solomon_parity fs = fs \<and>
     (starts_in_order h fs \<longrightarrow>
        au_sizes_total h + 2 * unat (num_aus h) + unat (au_start (au h ! 0))
          + unat (reed_solomon_parity fs) = unat fs))"

section \<open>Example inputs\<close>

text \<open>
  A frame start with a valid firecode, \<open>sbr_flag\<close> set and \<open>dac_rate\<close> clear (two access
  units, the second starting at byte 50), and the header decoded from it for a
  superframe of 120 bytes.
\<close>

definition example_frame_start :: "guint8 list" where
  "example_frame_start = [0x09, 0xc9, 0x20, 0x03, 0x20, 0, 0, 0, 0, 0, 0]"

definition example_header :: GstDabPlusSuperframeHeader where
  "example_header =
     \<lparr>header_firecode = 0x09c9, rfa = 0, dac_rate = 0, sbr_flag = 1, aac_channel_mode = 0,
      ps_flag = 0, mpeg_surround_config = 0, num_aus = 2,
      au = [\<lparr>au_start = 5, au_size = 43\<rparr>, \<lparr>au_start = 50, au_size = 58\<rparr>,
            \<lparr>au_start = 0xFFFFFFFF, au_size = 0xFFFFFFFF\<rparr>,
            \<lparr>au_start = 0xFFFFFFFF, au_size = 0xFFFFFFFF\<rparr>,
            \<lparr>au_start = 0xFFFFFFFF, au_size = 0xFFFFFFFF\<rparr>,
            \<lparr>au_start = 0xFFFFFFFF, au_size = 0xFFFFFFFF\<rparr>]\<rparr>"

text \<open>
  Two frame starts with valid firecodes whose second access unit starts at byte 0, before
  the first one, and at byte 4095, beyond the end of a superframe of 120 bytes.
\<close>

definition backward_frame_start :: "guint8 list" where
  "backward_frame_start = [0xb9, 0x17, 0x20, 0, 0, 0, 0, 0, 0, 0, 0]"

definition overlong_frame_start :: "guint8 list" where
  "overlong_frame_start = [0x16, 0xf9, 0x20, 0xff, 0xf0, 0, 0, 0, 0, 0, 0]"

text \<open>
  An input window with the example frame start at offset 0 and again at offset \<open>k\<close>,
  zero bytes between the two and \<open>tail\<close> zero bytes after the second; and a window with
  the example frame start at offset 0 only.
\<close>

definition two_frame_window :: "nat \<Rightarrow> nat \<Rightarrow> guint8 list" where
  "two_frame_window k tail =
     example_frame_start @ replicate (k - 11) 0 @ example_frame_start @ replicate tail 0"

definition one_frame_window :: "nat \<Rightarrow> guint8 list" where
  "one_frame_window tail = example_frame_start @ replicate tail 0 @ []"

text \<open>The parser object that \<open>gst_dabplusparse_reset\<close> leaves.\<close>

definition fresh_parser :: GstDabPlusParse where
  "fresh_parser =
     \<lparr>min_frame_size = 25931, object_type = -1, sample_rate = -1, channels = -1,
      i_header_type = DABPLUS_HEADER_NOT_PARSED, o_header_type = DABPLUS_HEADER_NOT_PARSED,
      superframe_size = 0, superframe_header = memset_0377_header\<rparr>"

text \<open>
  A parser object as the frame handler leaves it when the stream has just been detected
  with the given superframe size; a host that accepts the ADTS format, answers the
  sample rate indices of the four rates the element resolves, reports the profile
  \<open>lc\<close> and takes every frame; one that accepts only the raw format; and superframes
  of 120 and of 18000 bytes that start with a valid firecode (the first one with the
  surround configuration 3; in the second one the last access unit runs from byte 100
  to byte 16498).
\<close>

definition synchronized_parser :: "guint \<Rightarrow> GstDabPlusParse" where
  "synchronized_parser sf_size =
     fresh_parser\<lparr>i_header_type := DABPLUS_HEADER_SUPERFRAME,
                  o_header_type := DABPLUS_HEADER_ADTS,
                  superframe_size := sf_size, min_frame_size := sf_size\<rparr>"

definition example_host :: host where
  "example_host =
     \<lparr>draining = False,
      aac_get_index_from_sample_rate =
        (\<lambda>r. if r = 48000 then 3 else if r = 32000 then 5 else if r = 24000 then 6
              else if r = 16000 then 8 else -1),
      caps_can_intersect = (\<lambda>c. True),
      pad_set_caps = (\<lambda>c. True),
      caps_profile = Some ''lc'',
      finish_au_frame = (\<lambda>i b. GST_FLOW_OK),
      finish_superframe = GST_FLOW_OK\<rparr>"

definition raw_only_host :: host where
  "raw_only_host = example_host\<lparr>caps_can_intersect := (\<lambda>c. caps_stream_format c = Some ''raw'')\<rparr>"

definition surround3_superframe :: "guint8 list" where
  "surround3_superframe = [0xf9, 0xcf, 0x23, 0x03, 0x20, 0, 0, 0, 0, 0, 0] @ replicate 109 0"

definition large_superframe :: "guint8 list" where
  "large_superframe = [0xa0, 0x84, 0x20, 0x06, 0x40, 0, 0, 0, 0, 0, 0] @ replicate 17989 0"


text \<open>The header decoded from the superframe of 18000 bytes.\<close>

definition large_header :: GstDabPlusSuperframeHeader where
  "large_header =
     \<lparr>header_firecode = 0xa084, rfa = 0, dac_rate = 0, sbr_flag = 1, aac_channel_mode = 0,
      ps_flag = 0, mpeg_surround_config = 0, num_aus = 2,
      au = [\<lparr>au_start = 5, au_size = 93\<rparr>, \<lparr>au_start = 100, au_size = 16398\<rparr>,
            \<lparr>au_start = 0xFFFFFFFF, au_size = 0xFFFFFFFF\<rparr>,
            \<lparr>au_start = 0xFFFFFFFF, au_size = 0xFFFFFFFF\<rparr>,
            \<lparr>au_start = 0xFFFFFFFF, au_size = 0xFFFFFFFF\<rparr>,
            \<lparr>au_start = 0xFFFFFFFF, au_size = 0xFFFFFFFF\<rparr>]\<rparr>"

section \<open>Proofs: the firecode check\<close>

lemma firecode_pos_narrow:
  "(ucast (drop_bit 8 (ucast (c :: guint16) :: guint) XOR ucast (d :: guint8)) :: guint8) =
     ucast (drop_bit 8 c) XOR d"
  by (rule bit_word_eqI) (auto simp add: bit_simps)

lemma firecode_round_spec: "firecode_round c d = spec_crc16_round c d"
  unfolding firecode_round_def spec_crc16_round_def Let_def firecode_pos_narrow
  by (rule bit_word_eqI) (auto simp add: bit_simps)

lemma guard_word_cat:
  "(ucast (push_bit 8 (ucast (a :: guint8) :: guint) OR ucast (b :: guint8)) :: guint16) = word_cat a b"
  by (rule bit_word_eqI) (auto simp add: bit_simps dest: bit_imp_le_length)

lemma firecode_loop_foldl:
  "firecode_loop data i c = foldl firecode_round c (map ((!) data) [i..<FIRECODE_LENGTH])"
proof (induction data i c rule: firecode_loop.induct)
  case (1 data i firecode)
  show ?case
  proof (cases "i < FIRECODE_LENGTH")
    case True
    then have "[i..<FIRECODE_LENGTH] = i # [i + 1..<FIRECODE_LENGTH]"
      by (simp add: upt_conv_Cons)
    with True 1 show ?thesis
      by (subst firecode_loop.simps) simp
  next
    case False
    then show ?thesis
      by (subst firecode_loop.simps) simp
  qed
qed

lemma nths_take_drop:
  "i + n \<le> length xs \<Longrightarrow> map ((!) xs) [i..<i + n] = take n (drop i xs)"
  by (rule nth_equalityI) auto

lemma firecode_loop_spec:
  assumes "11 \<le> length data"
  shows "firecode_loop data 2 0 = spec_crc16 (take 9 (drop 2 data))"
proof -
  have r: "firecode_round = spec_crc16_round"
    by (simp add: fun_eq_iff firecode_round_spec)
  have "2 + 9 \<le> length data"
    using assms by simp
  then have "map ((!) data) [2..<2 + 9] = take 9 (drop 2 data)"
    by (rule nths_take_drop)
  moreover have "FIRECODE_LENGTH = 2 + 9"
    by (simp add: FIRECODE_LENGTH_def)
  ultimately show ?thesis
    by (simp only: firecode_loop_foldl spec_crc16_def r)
qed

text \<open>
  C3. On a buffer of 11 bytes (or a longer one, of which the first 11 are read) the
  firecode check returns true exactly when the big-endian guard of bytes 0 and 1 equals
  the table-driven CRC-16 of bytes 2 to 10 (initial value 0, most significant bit first,
  no final XOR) and that CRC is not zero.
\<close>

theorem check_firecode_iff_crc16:
  assumes "11 \<le> length data"
  shows "gst_dabplusparse_check_firecode data \<longleftrightarrow>
           (spec_guard_be data = spec_crc16 (take 9 (drop 2 data)) \<and>
            spec_crc16 (take 9 (drop 2 data)) \<noteq> 0)"
  using firecode_loop_spec [OF assms]
  by (auto simp add: gst_dabplusparse_check_firecode_def spec_guard_be_def guard_word_cat Let_def)

theorem check_firecode_iff_crc16_witness:
  "11 \<le> length [0xb9, 0x17, 0x20, 0, 0, 0, 0, 0, 0, 0, 0 :: guint8] \<and>
   gst_dabplusparse_check_firecode [0xb9, 0x17, 0x20, 0, 0, 0, 0, 0, 0, 0, 0] \<and>
   spec_crc16 (take 9 (drop 2 [0xb9, 0x17, 0x20, 0, 0, 0, 0, 0, 0, 0, 0])) = 0xb917"
proof -
  have l: "11 \<le> length [0xb9, 0x17, 0x20, 0, 0, 0, 0, 0, 0, 0, 0 :: guint8]"
    by simp
  have g: "spec_guard_be [0xb9, 0x17, 0x20, 0, 0, 0, 0, 0, 0, 0, 0] = 0xb917"
    by code_simp
  have c: "spec_crc16 (take 9 (drop 2 [0xb9, 0x17, 0x20, 0, 0, 0, 0, 0, 0, 0, 0])) = 0xb917"
    by code_simp
  show ?thesis
    using check_firecode_iff_crc16 [OF l] l g c by simp
qed

section \<open>Proofs: the superframe header\<close>

lemmas parse_defs = gst_dabplusparse_parse_superframe_header_def parse_num_aus_def parse_au_starts_def
  starts_case_2_def starts_case_3_def starts_case_4_def starts_case_6_def
  set_au_start_def set_au_size_def SUPERFRAME_MIN_SIZE_def RS_CODE_SIZE_def

lemma length_6_obtain:
  assumes "length xs = 6"
  obtains a0 a1 a2 a3 a4 a5 where "xs = [a0, a1, a2, a3, a4, a5]"
  using assms by (auto simp add: numeral_eq_Suc length_Suc_conv)

lemma parse_2:
  assumes "au hdr = [a0, a1, a2, a3, a4, a5]"
    and "sbr_flag (parse_flags hdr data) \<noteq> 0" and "dac_rate (parse_flags hdr data) = 0"
  shows "gst_dabplusparse_parse_superframe_header hdr data fs =
    (True, (parse_flags hdr data)\<lparr>num_aus := 2, au :=
       [a0\<lparr>au_start := 5, au_size := start_hi (data ! 3) (data ! 4) - 5 - 2\<rparr>,
        a1\<lparr>au_start := start_hi (data ! 3) (data ! 4), 
           au_size := aus_end fs - start_hi (data ! 3) (data ! 4) - 2\<rparr>, a2, a3, a4, a5]\<rparr>)"
proof -
  have "au (parse_flags hdr data) = [a0, a1, a2, a3, a4, a5]"
    using assms(1) by (simp add: parse_flags_def)
  with assms(2,3) show ?thesis
    by (simp add: parse_defs au_sizes_loop.simps Let_def start_hi_def start_lo_def aus_end_def)
qed

lemma parse_3:
  assumes "au hdr = [a0, a1, a2, a3, a4, a5]"
    and "sbr_flag (parse_flags hdr data) \<noteq> 0" and "dac_rate (parse_flags hdr data) \<noteq> 0"
  shows "gst_dabplusparse_parse_superframe_header hdr data fs =
    (True, (parse_flags hdr data)\<lparr>num_aus := 3, au :=
       [a0\<lparr>au_start := 6, au_size := start_hi (data ! 3) (data ! 4) - 6 - 2\<rparr>,
        a1\<lparr>au_start := start_hi (data ! 3) (data ! 4), 
           au_size := start_lo (data ! 4) (data ! 5) - start_hi (data ! 3) (data ! 4) - 2\<rparr>,
        a2\<lparr>au_start := start_lo (data ! 4) (data ! 5), 
           au_size := aus_end fs - start_lo (data ! 4) (data ! 5) - 2\<rparr>, a3, a4, a5]\<rparr>)"
proof -
  have "au (parse_flags hdr data) = [a0, a1, a2, a3, a4, a5]"
    using assms(1) by (simp add: parse_flags_def)
  with assms(2,3) show ?thesis
    by (simp add: parse_defs au_sizes_loop.simps Let_def start_hi_def start_lo_def aus_end_def)
qed

lemma parse_4:
  assumes "au hdr = [a0, a1, a2, a3, a4, a5]"
    and "sbr_flag (parse_flags hdr data) = 0" and "dac_rate (parse_flags hdr data) = 0"
  shows "gst_dabplusparse_parse_superframe_header hdr data fs =
    (True, (parse_flags hdr data)\<lparr>num_aus := 4, au :=
       [a0\<lparr>au_start := 8, au_size := start_hi (data ! 3) (data ! 4) - 8 - 2\<rparr>,
        a1\<lparr>au_start := start_hi (data ! 3) (data ! 4), 
           au_size := start_lo (data ! 4) (data ! 5) - start_hi (data ! 3) (data ! 4) - 2\<rparr>,
        a2\<lparr>au_start := start_lo (data ! 4) (data ! 5), 
           au_size := start_hi (data ! 6) (data ! 7) - start_lo (data ! 4) (data ! 5) - 2\<rparr>,
        a3\<lparr>au_start := start_hi (data ! 6) (data ! 7), 
           au_size := aus_end fs - start_hi (data ! 6) (data ! 7) - 2\<rparr>, a4, a5]\<rparr>)"
proof -
  have "au (parse_flags hdr data) = [a0, a1, a2, a3, a4, a5]"
    using assms(1) by (simp add: parse_flags_def)
  with assms(2,3) show ?thesis
    by (simp add: parse_defs au_sizes_loop.simps Let_def start_hi_def start_lo_def aus_end_def)
qed

lemma parse_6:
  assumes "au hdr = [a0, a1, a2, a3, a4, a5]"
    and "sbr_flag (parse_flags hdr data) = 0" and "dac_rate (parse_flags hdr data) \<noteq> 0"
  shows "gst_dabplusparse_parse_superframe_header hdr data fs =
    (True, (parse_flags hdr data)\<lparr>num_aus := 6, au :=
       [a0\<lparr>au_start := 11, au_size := start_hi (data ! 3) (data ! 4) - 11 - 2\<rparr>,
        a1\<lparr>au_start := start_hi (data ! 3) (data ! 4), 
           au_size := start_lo (data ! 4) (data ! 5) - start_hi (data ! 3) (data ! 4) - 2\<rparr>,
        a2\<lparr>au_start := start_lo (data ! 4) (data ! 5), 
           au_size := start_hi (data ! 6) (data ! 7) - start_lo (data ! 4) (data ! 5) - 2\<rparr>,
        a3\<lparr>au_start := start_hi (data ! 6) (data ! 7), 
           au_size := start_lo (data ! 7) (data ! 8) - start_hi (data ! 6) (data ! 7) - 2\<rparr>,
        a4\<lparr>au_start := start_lo (data ! 7) (data ! 8), 
           au_size := start_hi (data ! 9) (data ! 10) - start_lo (data ! 7) (data ! 8) - 2\<rparr>,
        a5\<lparr>au_start := start_hi (data ! 9) (data ! 10), 
           au_size := aus_end fs - start_hi (data ! 9) (data ! 10) - 2\<rparr>]\<rparr>)"
proof -
  have "au (parse_flags hdr data) = [a0, a1, a2, a3, a4, a5]"
    using assms(1) by (simp add: parse_flags_def)
  with assms(2,3) show ?thesis
    by (simp add: parse_defs au_sizes_loop.simps Let_def start_hi_def start_lo_def aus_end_def)
qed

lemma flag_bit: "c_not_not (ucast (d :: guint8) AND 2 ^ n) = (if bit d n then 1 else 0)"
  by (auto simp add: c_not_not_def and_exp_eq_0_iff_not_bit bit_ucast_iff dest: bit_imp_le_length)

lemma flags_bits:
  "sbr_flag (parse_flags hdr data) = (if bit (data ! 2) 5 then 1 else 0)"
  "dac_rate (parse_flags hdr data) = (if bit (data ! 2) 6 then 1 else 0)"
  using flag_bit [of "data ! 2" 5] flag_bit [of "data ! 2" 6]
  by (simp_all add: parse_flags_def)



lemma memset_au_length: "length (au memset_0377_header) = 6"
  by (simp add: memset_0377_header_def)

text \<open>
  C5. A decode of a header always succeeds; \<open>sbr_flag\<close> and \<open>dac_rate\<close> are bits 5 and
  6 of byte 2, each 0 or 1; and the number of access units and the start of the first
  one follow the table: (sbr 1, dac 0) gives (2, 5), (1, 1) gives (3, 6), (0, 0) gives
  (4, 8) and (0, 1) gives (6, 11).
\<close>

theorem parse_num_aus_table:
  assumes "length (au hdr) = 6"
    and "gst_dabplusparse_parse_superframe_header hdr data framesize = (ok, h)"
  shows "ok \<and>
         sbr_flag h = (if bit (data ! 2) 5 then 1 else 0) \<and>
         dac_rate h = (if bit (data ! 2) 6 then 1 else 0) \<and>
         (sbr_flag h = 1 \<and> dac_rate h = 0 \<longrightarrow> num_aus h = 2 \<and> au_start (au h ! 0) = 5) \<and>
         (sbr_flag h = 1 \<and> dac_rate h = 1 \<longrightarrow> num_aus h = 3 \<and> au_start (au h ! 0) = 6) \<and>
         (sbr_flag h = 0 \<and> dac_rate h = 0 \<longrightarrow> num_aus h = 4 \<and> au_start (au h ! 0) = 8) \<and>
         (sbr_flag h = 0 \<and> dac_rate h = 1 \<longrightarrow> num_aus h = 6 \<and> au_start (au h ! 0) = 11)"
proof -
  from assms(1) obtain a0 a1 a2 a3 a4 a5 where a: "au hdr = [a0, a1, a2, a3, a4, a5]"
    by (rule length_6_obtain)
  show ?thesis
  proof (cases "bit (data ! 2) 5")
    case sbr: True
    show ?thesis
    proof (cases "bit (data ! 2) 6")
      case True
      with sbr assms(2) parse_3 [OF a, of data framesize] show ?thesis
        by (auto simp add: flags_bits)
    next
      case False
      with sbr assms(2) parse_2 [OF a, of data framesize] show ?thesis
        by (auto simp add: flags_bits)
    qed
  next
    case sbr: False
    show ?thesis
    proof (cases "bit (data ! 2) 6")
      case True
      with sbr assms(2) parse_6 [OF a, of data framesize] show ?thesis
        by (auto simp add: flags_bits)
    next
      case False
      with sbr assms(2) parse_4 [OF a, of data framesize] show ?thesis
        by (auto simp add: flags_bits)
    qed
  qed
qed

theorem parse_num_aus_table_witness:
  "length (au memset_0377_header) = 6 \<and>
   (sbr_flag (snd (gst_dabplusparse_parse_superframe_header memset_0377_header [0x09, 0xc9, 0x20, 0x03, 0x20, 0, 0, 0, 0, 0, 0] 120)) = 1 \<and>
    dac_rate (snd (gst_dabplusparse_parse_superframe_header memset_0377_header [0x09, 0xc9, 0x20, 0x03, 0x20, 0, 0, 0, 0, 0, 0] 120)) = 0 \<and>
    num_aus (snd (gst_dabplusparse_parse_superframe_header memset_0377_header [0x09, 0xc9, 0x20, 0x03, 0x20, 0, 0, 0, 0, 0, 0] 120)) = 2 \<and>
    au_start (au (snd (gst_dabplusparse_parse_superframe_header memset_0377_header [0x09, 0xc9, 0x20, 0x03, 0x20, 0, 0, 0, 0, 0, 0] 120)) ! 0) = 5) \<and>
   (sbr_flag (snd (gst_dabplusparse_parse_superframe_header memset_0377_header [0, 0, 0x60, 0, 0, 0, 0, 0, 0, 0, 0] 120)) = 1 \<and>
    dac_rate (snd (gst_dabplusparse_parse_superframe_header memset_0377_header [0, 0, 0x60, 0, 0, 0, 0, 0, 0, 0, 0] 120)) = 1 \<and>
    num_aus (snd (gst_dabplusparse_parse_superframe_header memset_0377_header [0, 0, 0x60, 0, 0, 0, 0, 0, 0, 0, 0] 120)) = 3 \<and>
    au_start (au (snd (gst_dabplusparse_parse_superframe_header memset_0377_header [0, 0, 0x60, 0, 0, 0, 0, 0, 0, 0, 0] 120)) ! 0) = 6) \<and>
   (sbr_flag (snd (gst_dabplusparse_parse_superframe_header memset_0377_header [0, 0, 0x00, 0, 0, 0, 0, 0, 0, 0, 0] 120)) = 0 \<and>
    dac_rate (snd (gst_dabplusparse_parse_superframe_header memset_0377_header [0, 0, 0x00, 0, 0, 0, 0, 0, 0, 0, 0] 120)) = 0 \<and>
    num_aus (snd (gst_dabplusparse_parse_superframe_header memset_0377_header [0, 0, 0x00, 0, 0, 0, 0, 0, 0, 0, 0] 120)) = 4 \<and>
    au_start (au (snd (gst_dabplusparse_parse_superframe_header memset_0377_header [0, 0, 0x00, 0, 0, 0, 0, 0, 0, 0, 0] 120)) ! 0) = 8) \<and>
   (sbr_flag (snd (gst_dabplusparse_parse_superframe_header memset_0377_header [0, 0, 0x40, 0, 0, 0, 0, 0, 0, 0, 0] 120)) = 0 \<and>
    dac_rate (snd (gst_dabplusparse_parse_superframe_header memset_0377_header [0, 0, 0x40, 0, 0, 0, 0, 0, 0, 0, 0] 120)) = 1 \<and>
    num_aus (snd (gst_dabplusparse_parse_superframe_header memset_0377_header [0, 0, 0x40, 0, 0, 0, 0, 0, 0, 0, 0] 120)) = 6 \<and>
    au_start (au (snd (gst_dabplusparse_parse_superframe_header memset_0377_header [0, 0, 0x40, 0, 0, 0, 0, 0, 0, 0, 0] 120)) ! 0) = 11)"
  using
    parse_num_aus_table [OF memset_au_length surjective_pairing,
      of "[0x09, 0xc9, 0x20, 0x03, 0x20, 0, 0, 0, 0, 0, 0]" 120]
    parse_num_aus_table [OF memset_au_length surjective_pairing,
      of "[0, 0, 0x60, 0, 0, 0, 0, 0, 0, 0, 0]" 120]
    parse_num_aus_table [OF memset_au_length surjective_pairing,
      of "[0, 0, 0x00, 0, 0, 0, 0, 0, 0, 0, 0]" 120]
    parse_num_aus_table [OF memset_au_length surjective_pairing,
      of "[0, 0, 0x40, 0, 0, 0, 0, 0, 0, 0, 0]" 120]
    memset_au_length
  by simp

lemma unat_sub2:
  fixes a b :: guint
  assumes "unat b + 2 \<le> unat a"
  shows "unat (a - b - 2) = unat a - unat b - 2"
proof -
  have "b \<le> a"
    using assms by (simp add: word_le_nat_alt)
  then have 1: "unat (a - b) = unat a - unat b"
    by (rule unat_sub)
  with assms have "(2 :: guint) \<le> a - b"
    by (simp add: word_le_nat_alt)
  then have "unat (a - b - 2) = unat (a - b) - unat (2 :: guint)"
    by (rule unat_sub)
  with 1 show ?thesis
    by simp
qed

lemma unat_parity: "unat (reed_solomon_parity fs) = (unat fs div 120) * 10"
proof -
  have "unat (fs div 120) = unat fs div 120"
    by (simp add: unat_div)
  moreover have "unat fs < 2 ^ 32"
    using unsigned_less [of fs, where ?'a = nat] by simp
  ultimately have "unat (fs div 120) * unat (10 :: guint) < 2 ^ LENGTH(32)"
    by simp
  then have "unat (fs div 120 * 10) = unat (fs div 120) * unat (10 :: guint)"
    by (rule unat_mult_lem [THEN iffD1])
  then show ?thesis
    by (simp add: reed_solomon_parity_def unat_div)
qed

lemma unat_aus_end: "unat (aus_end fs) = unat fs - (unat fs div 120) * 10"
proof -
  have "unat (reed_solomon_parity fs) \<le> unat fs"
    by (simp add: unat_parity)
  then have "reed_solomon_parity fs \<le> fs"
    by (simp add: word_le_nat_alt)
  then have "unat (fs - reed_solomon_parity fs) = unat fs - unat (reed_solomon_parity fs)"
    by (rule unat_sub)
  then show ?thesis
    by (simp add: aus_end_def reed_solomon_parity_def [symmetric] unat_parity)
qed

lemma aus_end_parity: "aus_end fs = fs - reed_solomon_parity fs"
  by (simp add: aus_end_def reed_solomon_parity_def)

lemma parity_le: "(unat fs div 120) * 10 \<le> unat fs"
  by simp



lemma props_2:
  assumes "h = g\<lparr>num_aus := 2, au :=
       [a0\<lparr>au_start := s0, au_size := s1 - s0 - 2\<rparr>,
        a1\<lparr>au_start := s1, au_size := aus_end fs - s1 - 2\<rparr>,
        a2,
        a3,
        a4,
        a5]\<rparr>"
  shows "au_props h fs"
proof -
  have sizes: "\<forall>i. i + 1 < unat (num_aus h) \<longrightarrow>
         au_size (au h ! i) = au_start (au h ! (i + 1)) - au_start (au h ! i) - 2"
  proof (intro allI impI)
    fix i assume "i + 1 < unat (num_aus h)"
    then have "i \<in> {0}"
      by (auto simp add: assms)
    then show "au_size (au h ! i) = au_start (au h ! (i + 1)) - au_start (au h ! i) - 2"
      by (auto simp add: assms)
  qed
  have last: "au_size (au h ! (unat (num_aus h) - 1)) =
       (fs - reed_solomon_parity fs) - au_start (au h ! (unat (num_aus h) - 1)) - 2"
    by (simp add: assms aus_end_parity)
  have modsum: "au_sizes_sum h + 2 * num_aus h + au_start (au h ! 0) + reed_solomon_parity fs = fs"
    by (simp add: assms au_sizes_sum_def aus_end_parity)
  have exact: "au_sizes_total h + 2 * unat (num_aus h) + unat (au_start (au h ! 0))
          + unat (reed_solomon_parity fs) = unat fs" if o: "starts_in_order h fs"
  proof -
    from o have A: "\<And>i. i < 1 \<Longrightarrow> unat (au_start (au h ! i)) + 2 \<le> unat (au_start (au h ! (i + 1)))"
      and L: "unat (au_start (au h ! 1)) + 2 \<le> unat (aus_end fs)"
      by (simp_all add: starts_in_order_def assms unat_aus_end unat_parity)
    from A [of 0] L have "unat s0 + 2 \<le> unat s1" and "unat s1 + 2 \<le> unat (aus_end fs)"
      by (simp_all add: assms)
    then show ?thesis
      using parity_le [of fs]
      by (simp add: assms au_sizes_total_def unat_sub2 unat_parity unat_aus_end)
  qed
  from sizes last modsum exact show ?thesis
    unfolding au_props_def by blast
qed

lemma props_3:
  assumes "h = g\<lparr>num_aus := 3, au :=
       [a0\<lparr>au_start := s0, au_size := s1 - s0 - 2\<rparr>,
        a1\<lparr>au_start := s1, au_size := s2 - s1 - 2\<rparr>,
        a2\<lparr>au_start := s2, au_size := aus_end fs - s2 - 2\<rparr>,
        a3,
        a4,
        a5]\<rparr>"
  shows "au_props h fs"
proof -
  have sizes: "\<forall>i. i + 1 < unat (num_aus h) \<longrightarrow>
         au_size (au h ! i) = au_start (au h ! (i + 1)) - au_start (au h ! i) - 2"
  proof (intro allI impI)
    fix i assume "i + 1 < unat (num_aus h)"
    then have "i \<in> {0, 1}"
      by (auto simp add: assms)
    then show "au_size (au h ! i) = au_start (au h ! (i + 1)) - au_start (au h ! i) - 2"
      by (auto simp add: assms)
  qed
  have last: "au_size (au h ! (unat (num_aus h) - 1)) =
       (fs - reed_solomon_parity fs) - au_start (au h ! (unat (num_aus h) - 1)) - 2"
    by (simp add: assms aus_end_parity)
  have modsum: "au_sizes_sum h + 2 * num_aus h + au_start (au h ! 0) + reed_solomon_parity fs = fs"
    by (simp add: assms au_sizes_sum_def aus_end_parity)
  have exact: "au_sizes_total h + 2 * unat (num_aus h) + unat (au_start (au h ! 0))
          + unat (reed_solomon_parity fs) = unat fs" if o: "starts_in_order h fs"
  proof -
    from o have A: "\<And>i. i < 2 \<Longrightarrow> unat (au_start (au h ! i)) + 2 \<le> unat (au_start (au h ! (i + 1)))"
      and L: "unat (au_start (au h ! 2)) + 2 \<le> unat (aus_end fs)"
      by (simp_all add: starts_in_order_def assms unat_aus_end unat_parity)
    from A [of 0] A [of 1] L have "unat s0 + 2 \<le> unat s1" and "unat s1 + 2 \<le> unat s2" and "unat s2 + 2 \<le> unat (aus_end fs)"
      by (simp_all add: assms)
    then show ?thesis
      using parity_le [of fs]
      by (simp add: assms au_sizes_total_def unat_sub2 unat_parity unat_aus_end)
  qed
  from sizes last modsum exact show ?thesis
    unfolding au_props_def by blast
qed

lemma props_4:
  assumes "h = g\<lparr>num_aus := 4, au :=
       [a0\<lparr>au_start := s0, au_size := s1 - s0 - 2\<rparr>,
        a1\<lparr>au_start := s1, au_size := s2 - s1 - 2\<rparr>,
        a2\<lparr>au_start := s2, au_size := s3 - s2 - 2\<rparr>,
        a3\<lparr>au_start := s3, au_size := aus_end fs - s3 - 2\<rparr>,
        a4,
        a5]\<rparr>"
  shows "au_props h fs"
proof -
  have sizes: "\<forall>i. i + 1 < unat (num_aus h) \<longrightarrow>
         au_size (au h ! i) = au_start (au h ! (i + 1)) - au_start (au h ! i) - 2"
  proof (intro allI impI)
    fix i assume "i + 1 < unat (num_aus h)"
    then have "i \<in> {0, 1, 2}"
      by (auto simp add: assms)
    then show "au_size (au h ! i) = au_start (au h ! (i + 1)) - au_start (au h ! i) - 2"
      by (auto simp add: assms)
  qed
  have last: "au_size (au h ! (unat (num_aus h) - 1)) =
       (fs - reed_solomon_parity fs) - au_start (au h ! (unat (num_aus h) - 1)) - 2"
    by (simp add: assms aus_end_parity)
  have modsum: "au_sizes_sum h + 2 * num_aus h + au_start (au h ! 0) + reed_solomon_parity fs = fs"
    by (simp add: assms au_sizes_sum_def aus_end_parity)
  have exact: "au_sizes_total h + 2 * unat (num_aus h) + unat (au_start (au h ! 0))
          + unat (reed_solomon_parity fs) = unat fs" if o: "starts_in_order h fs"
  proof -
    from o have A: "\<And>i. i < 3 \<Longrightarrow> unat (au_start (au h ! i)) + 2 \<le> unat (au_start (au h ! (i + 1)))"
      and L: "unat (au_start (au h ! 3)) + 2 \<le> unat (aus_end fs)"
      by (simp_all add: starts_in_order_def assms unat_aus_end unat_parity)
    from A [of 0] A [of 1] A [of 2] L have "unat s0 + 2 \<le> unat s1" and "unat s1 + 2 \<le> unat s2" and "unat s2 + 2 \<le> unat s3" and "unat s3 + 2 \<le> unat (aus_end fs)"
      by (simp_all add: assms)
    then show ?thesis
      using parity_le [of fs]
      by (simp add: assms au_sizes_total_def unat_sub2 unat_parity unat_aus_end)
  qed
  from sizes last modsum exact show ?thesis
    unfolding au_props_def by blast
qed

lemma props_6:
  assumes "h = g\<lparr>num_aus := 6, au :=
       [a0\<lparr>au_start := s0, au_size := s1 - s0 - 2\<rparr>,
        a1\<lparr>au_start := s1, au_size := s2 - s1 - 2\<rparr>,
        a2\<lparr>au_start := s2, au_size := s3 - s2 - 2\<rparr>,
        a3\<lparr>au_start := s3, au_size := s4 - s3 - 2\<rparr>,
        a4\<lparr>au_start := s4, au_size := s5 - s4 - 2\<rparr>,
        a5\<lparr>au_start := s5, au_size := aus_end fs - s5 - 2\<rparr>]\<rparr>"
  shows "au_props h fs"
proof -
  have sizes: "\<forall>i. i + 1 < unat (num_aus h) \<longrightarrow>
         au_size (au h ! i) = au_start (au h ! (i + 1)) - au_start (au h ! i) - 2"
  proof (intro allI impI)
    fix i assume "i + 1 < unat (num_aus h)"
    then have "i \<in> {0, 1, 2, 3, 4}"
      by (auto simp add: assms)
    then show "au_size (au h ! i) = au_start (au h ! (i + 1)) - au_start (au h ! i) - 2"
      by (auto simp add: assms)
  qed
  have last: "au_size (au h ! (unat (num_aus h) - 1)) =
       (fs - reed_solomon_parity fs) - au_start (au h ! (unat (num_aus h) - 1)) - 2"
    by (simp add: assms aus_end_parity)
  have modsum: "au_sizes_sum h + 2 * num_aus h + au_start (au h ! 0) + reed_solomon_parity fs = fs"
    by (simp add: assms au_sizes_sum_def aus_end_parity)
  have exact: "au_sizes_total h + 2 * unat (num_aus h) + unat (au_start (au h ! 0))
          + unat (reed_solomon_parity fs) = unat fs" if o: "starts_in_order h fs"
  proof -
    from o have A: "\<And>i. i < 5 \<Longrightarrow> unat (au_start (au h ! i)) + 2 \<le> unat (au_start (au h ! (i + 1)))"
      and L: "unat (au_start (au h ! 5)) + 2 \<le> unat (aus_end fs)"
      by (simp_all add: starts_in_order_def assms unat_aus_end unat_parity)
    from A [of 0] A [of 1] A [of 2] A [of 3] A [of 4] L have "unat s0 + 2 \<le> unat s1" and "unat s1 + 2 \<le> unat s2" and "unat s2 + 2 \<le> unat s3" and "unat s3 + 2 \<le> unat s4" and "unat s4 + 2 \<le> unat s5" and "unat s5 + 2 \<le> unat (aus_end fs)"
      by (simp_all add: assms)
    then show ?thesis
      using parity_le [of fs]
      by (simp add: assms au_sizes_total_def unat_sub2 unat_parity unat_aus_end)
  qed
  from sizes last modsum exact show ?thesis
    unfolding au_props_def by blast
qed

lemma example_parse:
  "gst_dabplusparse_parse_superframe_header memset_0377_header example_frame_start 120 = (True, example_header)"
  by code_simp

lemma example_in_order: "starts_in_order example_header 120"
  by (simp add: starts_in_order_def example_header_def reed_solomon_parity_def)

lemma example_total: "au_sizes_total example_header = 101"
  by (simp add: au_sizes_total_def example_header_def)

lemma example_firecode: "gst_dabplusparse_check_firecode example_frame_start"
  by code_simp


text \<open>
  C1, as amended. A decode always succeeds, and in the decoded header each access unit
  but the last has the size "start of the next, minus its own start, minus 2", and the
  last one the size "frame size minus parity, minus its own start, minus 2", all in
  32-bit arithmetic. The sizes, 2 bytes for each access unit, the start of the first
  access unit (the header bytes before it) and the parity add up to the frame size:
  modulo \<open>2 ^ 32\<close> always, and exactly when the starts are in order.
\<close>

theorem au_sizes_account:
  assumes "length (au hdr) = 6"
    and "gst_dabplusparse_parse_superframe_header hdr data framesize = (ok, h)"
  shows "ok \<and>
    (\<forall>i. i + 1 < unat (num_aus h) \<longrightarrow>
       au_size (au h ! i) = au_start (au h ! (i + 1)) - au_start (au h ! i) - 2) \<and>
    au_size (au h ! (unat (num_aus h) - 1)) =
       (framesize - reed_solomon_parity framesize) - au_start (au h ! (unat (num_aus h) - 1)) - 2 \<and>
    au_sizes_sum h + 2 * num_aus h + au_start (au h ! 0) + reed_solomon_parity framesize = framesize \<and>
    (starts_in_order h framesize \<longrightarrow>
       au_sizes_total h + 2 * unat (num_aus h) + unat (au_start (au h ! 0))
         + unat (reed_solomon_parity framesize) = unat framesize)"
proof -
  from assms(1) obtain a0 a1 a2 a3 a4 a5 where a: "au hdr = [a0, a1, a2, a3, a4, a5]"
    by (rule length_6_obtain)
  have h: "h = snd (gst_dabplusparse_parse_superframe_header hdr data framesize)"
    and ok: "ok = fst (gst_dabplusparse_parse_superframe_header hdr data framesize)"
    using assms(2) by simp_all
  have "ok \<and> au_props h framesize"
  proof (cases "sbr_flag (parse_flags hdr data) = 0")
    case sbr: True
    show ?thesis
    proof (cases "dac_rate (parse_flags hdr data) = 0")
      case True
      note p = parse_4 [OF a sbr True, of framesize]
      from h have "au_props h framesize"
        unfolding p snd_conv by (rule props_4)
      with ok show ?thesis
        unfolding p by simp
    next
      case False
      note p = parse_6 [OF a sbr False, of framesize]
      from h have "au_props h framesize"
        unfolding p snd_conv by (rule props_6)
      with ok show ?thesis
        unfolding p by simp
    qed
  next
    case sbr: False
    show ?thesis
    proof (cases "dac_rate (parse_flags hdr data) = 0")
      case True
      note p = parse_2 [OF a sbr True, of framesize]
      from h have "au_props h framesize"
        unfolding p snd_conv by (rule props_2)
      with ok show ?thesis
        unfolding p by simp
    next
      case False
      note p = parse_3 [OF a sbr False, of framesize]
      from h have "au_props h framesize"
        unfolding p snd_conv by (rule props_3)
      with ok show ?thesis
        unfolding p by simp
    qed
  qed
  then show ?thesis
    unfolding au_props_def by simp
qed

theorem au_sizes_account_witness:
  "length (au memset_0377_header) = 6 \<and>
   gst_dabplusparse_parse_superframe_header memset_0377_header example_frame_start 120
     = (True, example_header) \<and>
   0 + 1 < unat (num_aus example_header) \<and>
   au_size (au example_header ! 0) = 50 - 5 - 2 \<and>
   au_size (au example_header ! 1) = (120 - 10) - 50 - 2 \<and>
   starts_in_order example_header 120 \<and>
   au_sizes_total example_header + 2 * 2 + 5 + 10 = 120"
  using au_sizes_account [OF memset_au_length example_parse] example_in_order
    memset_au_length example_parse
  by (simp add: example_header_def reed_solomon_parity_def)


text \<open>
  C1, as stated, fails: for the example frame the starts are in order and no size wraps,
  yet the sizes (43 and 58), 2 bytes for each of the 2 access units and the 10 parity
  bytes give 115, not the frame size 120. The 5 bytes before the first access unit are
  missing from the sum.
\<close>

theorem au_sizes_sum_counterexample:
  "fst (gst_dabplusparse_parse_superframe_header memset_0377_header example_frame_start 120) \<and>
   starts_in_order
     (snd (gst_dabplusparse_parse_superframe_header memset_0377_header example_frame_start 120)) 120 \<and>
   au_sizes_total
     (snd (gst_dabplusparse_parse_superframe_header memset_0377_header example_frame_start 120))
     + 2 * unat (num_aus
         (snd (gst_dabplusparse_parse_superframe_header memset_0377_header example_frame_start 120)))
     + unat (reed_solomon_parity 120) \<noteq> unat (120 :: guint) \<and>
   au_sizes_sum
     (snd (gst_dabplusparse_parse_superframe_header memset_0377_header example_frame_start 120))
     + 2 * num_aus
         (snd (gst_dabplusparse_parse_superframe_header memset_0377_header example_frame_start 120))
     + reed_solomon_parity 120 \<noteq> 120"
  by (simp add: example_parse example_in_order example_total)
    (simp add: example_header_def reed_solomon_parity_def au_sizes_sum_def)


text \<open>
  C9. The decoder checks nothing about the starts it reads: it reports success on every
  input, also when the second access unit starts before the first (the size of the first
  wraps to \<open>2 ^ 32 - 7\<close>) and when it starts beyond the end of the frame (the size of the
  last wraps to \<open>2 ^ 32 + 110 - 4095 - 2\<close>).
\<close>

theorem parse_accepts_wrapped_sizes:
  "(\<forall>hdr data framesize. fst (gst_dabplusparse_parse_superframe_header hdr data framesize)) \<and>
   au_start (au (snd (gst_dabplusparse_parse_superframe_header
                        memset_0377_header backward_frame_start 120)) ! 0) = 5 \<and>
   au_start (au (snd (gst_dabplusparse_parse_superframe_header
                        memset_0377_header backward_frame_start 120)) ! 1) = 0 \<and>
   unat (au_size (au (snd (gst_dabplusparse_parse_superframe_header
                        memset_0377_header backward_frame_start 120)) ! 0)) = 2 ^ 32 - 7 \<and>
   au_start (au (snd (gst_dabplusparse_parse_superframe_header
                        memset_0377_header overlong_frame_start 120)) ! 1) = 4095 \<and>
   unat (au_size (au (snd (gst_dabplusparse_parse_superframe_header
                        memset_0377_header overlong_frame_start 120)) ! 1)) = 2 ^ 32 + 110 - 4095 - 2"
proof -
  have "fst (gst_dabplusparse_parse_superframe_header hdr data framesize)" for hdr data framesize
    by (simp add: gst_dabplusparse_parse_superframe_header_def parse_num_aus_def
        parse_au_starts_def set_au_start_def Let_def split: prod.splits)
  moreover have "gst_dabplusparse_parse_superframe_header memset_0377_header backward_frame_start 120
     = (True, example_header\<lparr>header_firecode := 0xb917, au := (au example_header)
         [0 := \<lparr>au_start = 5, au_size = 0xFFFFFFF9\<rparr>, 1 := \<lparr>au_start = 0, au_size = 108\<rparr>]\<rparr>)"
    by code_simp
  moreover have "gst_dabplusparse_parse_superframe_header memset_0377_header overlong_frame_start 120
     = (True, example_header\<lparr>header_firecode := 0x16f9, au := (au example_header)
         [0 := \<lparr>au_start = 5, au_size = 4088\<rparr>, 1 := \<lparr>au_start = 4095, au_size = 4294963309\<rparr>]\<rparr>)"
    by code_simp
  ultimately show ?thesis
    by (simp add: example_header_def)
qed

section \<open>Proofs: ADTS headers\<close>








section \<open>Proofs: stream detection\<close>

lemma scan_firecode_found:
  "scan_firecode data i limit = (True, j) \<Longrightarrow>
     i \<le> j \<and> j < limit \<and> gst_dabplusparse_check_firecode (drop j data) \<and>
     (\<forall>k. i \<le> k \<and> k < j \<longrightarrow> \<not> gst_dabplusparse_check_firecode (drop k data))"
proof (induction data i limit rule: scan_firecode.induct)
  case (1 data i limit)
  show ?case
  proof (cases "i < limit \<and> \<not> gst_dabplusparse_check_firecode (drop i data)")
    case True
    with "1.prems" have "scan_firecode data (i + 1) limit = (True, j)"
      by (simp add: scan_firecode.simps [of data i])
    with True "1.IH" have
      "i + 1 \<le> j \<and> j < limit \<and> gst_dabplusparse_check_firecode (drop j data) \<and>
       (\<forall>k. i + 1 \<le> k \<and> k < j \<longrightarrow> \<not> gst_dabplusparse_check_firecode (drop k data))"
      by simp
    with True show ?thesis
      by (auto simp add: Suc_le_eq less_Suc_eq_le dest: le_neq_implies_less)
  next
    case False
    with "1.prems" show ?thesis
      by (auto simp add: scan_firecode.simps [of data i] split: if_splits)
  qed
qed

lemma scan_firecode_not_found:
  "scan_firecode data i limit = (False, j) \<Longrightarrow>
     j = max i limit \<and>
     (\<forall>k. i \<le> k \<and> k < limit \<longrightarrow> \<not> gst_dabplusparse_check_firecode (drop k data))"
proof (induction data i limit rule: scan_firecode.induct)
  case (1 data i limit)
  show ?case
  proof (cases "i < limit \<and> \<not> gst_dabplusparse_check_firecode (drop i data)")
    case True
    with "1.prems" have "scan_firecode data (i + 1) limit = (False, j)"
      by (simp add: scan_firecode.simps [of data i])
    with True "1.IH" have
      "j = max (i + 1) limit \<and>
       (\<forall>k. i + 1 \<le> k \<and> k < limit \<longrightarrow> \<not> gst_dabplusparse_check_firecode (drop k data))"
      by simp
    with True show ?thesis
      by (auto simp add: Suc_le_eq dest: le_neq_implies_less)
  next
    case False
    with "1.prems" show ?thesis
      by (auto simp add: scan_firecode.simps [of data i] split: if_splits)
  qed
qed

lemma scan_firecode_skip:
  assumes "\<forall>k. i \<le> k \<and> k < m \<longrightarrow> \<not> gst_dabplusparse_check_firecode (drop k data)"
    and "i \<le> m" and "m \<le> limit"
  shows "scan_firecode data i limit = scan_firecode data m limit"
  using assms
proof (induction "m - i" arbitrary: i)
  case 0
  then show ?case by simp
next
  case (Suc d)
  then have "i < limit" and "\<not> gst_dabplusparse_check_firecode (drop i data)"
    by auto
  then have "scan_firecode data i limit = scan_firecode data (i + 1) limit"
    by (simp add: scan_firecode.simps [of data i])
  also have "\<dots> = scan_firecode data m limit"
    using Suc by (intro Suc.hyps(1)) auto
  finally show ?case .
qed

lemma scan_firecode_hit:
  "i < limit \<Longrightarrow> gst_dabplusparse_check_firecode (drop i data) \<Longrightarrow>
     scan_firecode data i limit = (True, i)"
  by (simp add: scan_firecode.simps [of data i])

lemma scan_firecode_end: "scan_firecode data limit limit = (False, limit)"
  by (simp add: scan_firecode.simps [of data limit])

lemma unat_of_nat32: "i < 2 ^ 32 \<Longrightarrow> unat (of_nat i :: guint) = i"
  by (simp add: unat_of_nat)

lemmas detect_defs = gst_dabplusparse_detect_stream_def SUPERFRAME_MAX_SIZE_def
  SUPERFRAME_MIN_SIZE_def N_MAX_def FIRECODE_LENGTH_def

text \<open>
  C4, as amended. When stream detection succeeds, the firecode checks at offset 0 and at
  the offset \<open>k\<close> that is recorded as the superframe size; \<open>k\<close> is a multiple of 120
  with \<open>120 \<le> k < avail - 11\<close>, and nothing more is checked: that \<open>k\<close> stays within
  \<open>216 * 120\<close> follows for a window shorter than \<open>216 * 120 + 131\<close> bytes, not in general. When the firecode
  checks at offset 0 and the second scan ends without a match, or with a match at an
  offset that is not a multiple of 120, detection fails and \<open>*skipsize\<close> is the index at
  which the second scan stopped.
\<close>

theorem detect_stream_size:
  "(gst_dabplusparse_detect_stream dabplusparse data avail skipsize = (True, p', skipsize') \<longrightarrow>
      unat (superframe_size p') mod 120 = 0 \<and>
      120 \<le> unat (superframe_size p') \<and>
      unat (superframe_size p') < unat avail - 11 \<and>
      (unat avail < 216 * 120 + 131 \<longrightarrow> unat (superframe_size p') \<le> 216 * 120) \<and>
      gst_dabplusparse_check_firecode data \<and>
      gst_dabplusparse_check_firecode (drop (unat (superframe_size p')) data) \<and>
      min_frame_size p' = superframe_size p' \<and>
      skipsize' = skipsize) \<and>
   (216 * 120 + 11 \<le> unat avail \<and>
    gst_dabplusparse_check_firecode data \<and>
    scan_firecode data 120 (unat avail - 11) = (found, i) \<and>
    (\<not> found \<or> i mod 120 \<noteq> 0) \<longrightarrow>
      gst_dabplusparse_detect_stream dabplusparse data avail skipsize
        = (False, dabplusparse, sint (word_of_nat i :: guint)))"
proof -
  have sub: "unat (avail - 11) = unat avail - 11" if "216 * 120 + 11 \<le> unat avail"
  proof -
    from that have "(11 :: guint) \<le> avail"
      by (simp add: word_le_nat_alt)
    then show ?thesis
      by (simp add: unat_sub)
  qed
  have lim: "unat avail - 11 < 2 ^ 32"
    using unsigned_less [of avail, where ?'a = nat] by simp
  have success: "unat (superframe_size p') mod 120 = 0 \<and>
      120 \<le> unat (superframe_size p') \<and>
      unat (superframe_size p') < unat avail - 11 \<and>
      (unat avail < 216 * 120 + 131 \<longrightarrow> unat (superframe_size p') \<le> 216 * 120) \<and>
      gst_dabplusparse_check_firecode data \<and>
      gst_dabplusparse_check_firecode (drop (unat (superframe_size p')) data) \<and>
      min_frame_size p' = superframe_size p' \<and>
      skipsize' = skipsize"
    if d: "gst_dabplusparse_detect_stream dabplusparse data avail skipsize = (True, p', skipsize')"
  proof -
    from d have big: "216 * 120 + 11 \<le> unat avail"
      by (auto simp add: detect_defs split: if_splits)
    obtain f1 i1 where s1: "scan_firecode data 0 (unat avail - 11) = (f1, i1)"
      by (cases "scan_firecode data 0 (unat avail - 11)")
    obtain f2 i2 where s2: "scan_firecode data 120 (unat avail - 11) = (f2, i2)"
      by (cases "scan_firecode data 120 (unat avail - 11)")
    from d big s1 s2 have f1: "f1" "i1 = 0" and f2: "f2"
      and m: "(word_of_nat i2 :: guint) mod 120 = 0"
      and p': "p' = dabplusparse\<lparr>superframe_size := word_of_nat i2, min_frame_size := word_of_nat i2\<rparr>"
      and sk: "skipsize' = skipsize"
      by (auto simp add: detect_defs sub Let_def split: if_splits)
    from s1 f1 have c0: "gst_dabplusparse_check_firecode data"
      using scan_firecode_found [of data 0 "unat avail - 11" 0] by simp
    from s2 f2 have r2: "120 \<le> i2" "i2 < unat avail - 11"
      and c2: "gst_dabplusparse_check_firecode (drop i2 data)"
      using scan_firecode_found [of data 120 "unat avail - 11" i2] by simp_all
    from r2 lim have u: "unat (word_of_nat i2 :: guint) = i2"
      by (intro unat_of_nat32) simp
    from m have "unat ((word_of_nat i2 :: guint) mod 120) = 0"
      by simp
    then have m': "i2 mod 120 = 0"
      by (simp add: unat_mod u)
    have "i2 \<le> 216 * 120" if "unat avail < 216 * 120 + 131"
      using that r2 m' by presburger
    with p' sk c0 c2 r2 m' u show ?thesis
      by simp
  qed
  have failure: "gst_dabplusparse_detect_stream dabplusparse data avail skipsize
        = (False, dabplusparse, sint (word_of_nat i :: guint))"
    if big: "216 * 120 + 11 \<le> unat avail"
      and c0: "gst_dabplusparse_check_firecode data"
      and s2: "scan_firecode data 120 (unat avail - 11) = (found, i)"
      and nf: "\<not> found \<or> i mod 120 \<noteq> 0"
  proof -
    from big c0 have s1: "scan_firecode data 0 (unat avail - 11) = (True, 0)"
      by (intro scan_firecode_hit) simp_all
    show ?thesis
    proof (cases found)
      case False
      with big s1 s2 show ?thesis
        by (simp add: detect_defs sub Let_def)
    next
      case True
      with s2 have "i < unat avail - 11"
        using scan_firecode_found [of data 120 "unat avail - 11" i] by simp
      with lim have u: "unat (word_of_nat i :: guint) = i"
        by (intro unat_of_nat32) simp
      from True nf have "i mod 120 \<noteq> 0"
        by simp
      with u have "unat ((word_of_nat i :: guint) mod 120) \<noteq> 0"
        by (simp add: unat_mod)
      then have "(word_of_nat i :: guint) mod 120 \<noteq> 0"
        by (metis unat_0) 
      with True big s1 s2 show ?thesis
        by (simp add: detect_defs sub Let_def)
    qed
  qed
  from success failure show ?thesis
    by blast
qed

lemma check_firecode_cong:
  assumes "\<And>i. i < 11 \<Longrightarrow> xs ! i = ys ! i"
  shows "gst_dabplusparse_check_firecode xs = gst_dabplusparse_check_firecode ys"
proof -
  have "map ((!) xs) [2..<FIRECODE_LENGTH] = map ((!) ys) [2..<FIRECODE_LENGTH]"
  proof (rule map_cong [OF refl])
    fix i assume "i \<in> set [2..<FIRECODE_LENGTH]"
    then have "i < 11"
      by (auto simp add: FIRECODE_LENGTH_def)
    then show "xs ! i = ys ! i"
      by (rule assms)
  qed
  then have l: "firecode_loop xs 2 0 = firecode_loop ys 2 0"
    by (simp only: firecode_loop_foldl)
  have 0: "xs ! 0 = ys ! 0"
    by (rule assms) simp
  have 1: "xs ! 1 = ys ! 1"
    by (rule assms) simp
  show ?thesis
    unfolding gst_dabplusparse_check_firecode_def l 0 1 ..
qed

lemma zero_window_rejected: "\<not> gst_dabplusparse_check_firecode (replicate 11 0)"
  by code_simp

lemma partial_windows_rejected:
  shows "\<not> gst_dabplusparse_check_firecode (replicate 1 0 @ example_frame_start)" and
    "\<not> gst_dabplusparse_check_firecode (replicate 2 0 @ example_frame_start)" and
    "\<not> gst_dabplusparse_check_firecode (replicate 3 0 @ example_frame_start)" and
    "\<not> gst_dabplusparse_check_firecode (replicate 4 0 @ example_frame_start)" and
    "\<not> gst_dabplusparse_check_firecode (replicate 5 0 @ example_frame_start)" and
    "\<not> gst_dabplusparse_check_firecode (replicate 6 0 @ example_frame_start)" and
    "\<not> gst_dabplusparse_check_firecode (replicate 7 0 @ example_frame_start)" and
    "\<not> gst_dabplusparse_check_firecode (replicate 8 0 @ example_frame_start)" and
    "\<not> gst_dabplusparse_check_firecode (replicate 9 0 @ example_frame_start)" and
    "\<not> gst_dabplusparse_check_firecode (replicate 10 0 @ example_frame_start)"
  by code_simp+

lemma partial_window_rejected:
  assumes "1 \<le> m" and "m \<le> 10"
  shows "\<not> gst_dabplusparse_check_firecode (replicate m 0 @ example_frame_start)"
proof -
  from assms have "m = 1 \<or> m = 2 \<or> m = 3 \<or> m = 4 \<or> m = 5 \<or> m = 6 \<or> m = 7 \<or> m = 8 \<or> m = 9 \<or> m = 10"
    by arith
  with partial_windows_rejected show ?thesis
    by blast
qed

lemma example_length: "length example_frame_start = 11"
  by (simp add: example_frame_start_def)

text \<open>Windows over the zero bytes that follow a frame start.\<close>

lemma zeros_rejected:
  assumes "length f = 11" and "11 \<le> j" and "j + 11 \<le> 11 + z"
  shows "\<not> gst_dabplusparse_check_firecode (drop j (f @ replicate z 0 @ rest))"
proof -
  have "drop j (f @ replicate z 0 @ rest) ! i = replicate 11 (0 :: guint8) ! i" if "i < 11" for i
    using that assms by (auto simp add: nth_append)
  then have "gst_dabplusparse_check_firecode (drop j (f @ replicate z 0 @ rest)) =
      gst_dabplusparse_check_firecode (replicate 11 0)"
    by (rule check_firecode_cong)
  with zero_window_rejected show ?thesis
    by simp
qed

lemma two_frame_window_first: "gst_dabplusparse_check_firecode (two_frame_window k tail)"
proof -
  have "two_frame_window k tail ! i = example_frame_start ! i" if "i < 11" for i
    using that by (simp add: two_frame_window_def nth_append example_length)
  then have "gst_dabplusparse_check_firecode (two_frame_window k tail) =
      gst_dabplusparse_check_firecode example_frame_start"
    by (rule check_firecode_cong)
  with example_firecode show ?thesis
    by simp
qed

lemma one_frame_window_first: "gst_dabplusparse_check_firecode (one_frame_window tail)"
proof -
  have "one_frame_window tail ! i = example_frame_start ! i" if "i < 11" for i
    using that by (simp add: one_frame_window_def nth_append example_length)
  then have "gst_dabplusparse_check_firecode (one_frame_window tail) =
      gst_dabplusparse_check_firecode example_frame_start"
    by (rule check_firecode_cong)
  with example_firecode show ?thesis
    by simp
qed

lemma two_frame_window_second:
  assumes "11 \<le> k"
  shows "gst_dabplusparse_check_firecode (drop k (two_frame_window k tail))"
proof -
  have "drop k (two_frame_window k tail) ! i = example_frame_start ! i" if "i < 11" for i
    using that assms by (simp add: two_frame_window_def nth_append example_length)
  then have "gst_dabplusparse_check_firecode (drop k (two_frame_window k tail)) =
      gst_dabplusparse_check_firecode example_frame_start"
    by (rule check_firecode_cong)
  with example_firecode show ?thesis
    by simp
qed

lemma two_frame_window_between:
  assumes "11 \<le> j" and "j < k"
  shows "\<not> gst_dabplusparse_check_firecode (drop j (two_frame_window k tail))"
proof (cases "j + 11 \<le> k")
  case True
  with assms show ?thesis
    unfolding two_frame_window_def
    by (intro zeros_rejected) (simp_all add: example_length)
next
  case False
  define m where "m = k - j"
  from False assms have m: "1 \<le> m" "m \<le> 10" "k = j + m"
    by (simp_all add: m_def)
  have "drop j (two_frame_window k tail) ! i = (replicate m 0 @ example_frame_start) ! i"
    if "i < 11" for i
    using that assms m by (auto simp add: two_frame_window_def nth_append example_length)
  then have "gst_dabplusparse_check_firecode (drop j (two_frame_window k tail)) =
      gst_dabplusparse_check_firecode (replicate m 0 @ example_frame_start)"
    by (rule check_firecode_cong)
  with partial_window_rejected [OF m(1,2)] show ?thesis
    by simp
qed

lemma two_frame_window_scan:
  assumes "120 \<le> k" and "k < limit"
  shows "scan_firecode (two_frame_window k tail) 120 limit = (True, k)"
proof -
  have "scan_firecode (two_frame_window k tail) 120 limit =
      scan_firecode (two_frame_window k tail) k limit"
    using assms by (intro scan_firecode_skip) (simp_all add: two_frame_window_between)
  also have "\<dots> = (True, k)"
    using assms by (intro scan_firecode_hit two_frame_window_second) simp_all
  finally show ?thesis .
qed

lemma one_frame_window_scan:
  assumes "120 \<le> limit" and "limit \<le> tail"
  shows "scan_firecode (one_frame_window tail) 120 limit = (False, limit)"
proof -
  have "scan_firecode (one_frame_window tail) 120 limit =
      scan_firecode (one_frame_window tail) limit limit"
    using assms unfolding one_frame_window_def
    by (intro scan_firecode_skip allI impI zeros_rejected) (simp_all add: example_length)
  then show ?thesis
    by (simp add: scan_firecode_end)
qed

lemma first_scan:
  "0 < limit \<Longrightarrow> gst_dabplusparse_check_firecode data \<Longrightarrow> scan_firecode data 0 limit = (True, 0)"
  by (rule scan_firecode_hit) simp_all


lemma unat_sub_11:
  assumes "11 \<le> n" and "n < 2 ^ 32"
  shows "unat (word_of_nat n - 11 :: guint) = n - 11"
proof -
  from assms have n: "unat (word_of_nat n :: guint) = n"
    by (simp add: unat_of_nat32)
  have "unat (11 :: guint) \<le> unat (word_of_nat n :: guint)"
    unfolding n using assms by simp
  then have "(11 :: guint) \<le> word_of_nat n"
    by (simp only: word_le_nat_alt)
  then have "unat (word_of_nat n - 11 :: guint) = unat (word_of_nat n :: guint) - unat (11 :: guint)"
    by (rule unat_sub)
  then show ?thesis
    unfolding n by simp
qed

lemma detect_two_frame_window:
  assumes "120 \<le> k" and "k mod 120 = 0" and "k + 11 < n" and "25931 \<le> n" and "n < 2 ^ 32"
  shows "gst_dabplusparse_detect_stream p (two_frame_window k tail) (word_of_nat n) sk =
    (True, p\<lparr>superframe_size := word_of_nat k, min_frame_size := word_of_nat k\<rparr>, sk)"
proof -
  from assms have n: "unat (word_of_nat n :: guint) = n"
    by (simp add: unat_of_nat32)
  from assms have sub: "unat (word_of_nat n - 11 :: guint) = n - 11"
    by (intro unat_sub_11) simp_all
  from assms have k: "unat (word_of_nat k :: guint) = k"
    by (simp add: unat_of_nat32)
  have "unat ((word_of_nat k :: guint) mod 120) = unat (word_of_nat k :: guint) mod unat (120 :: guint)"
    by (rule unat_mod)
  with assms(2) have "unat ((word_of_nat k :: guint) mod 120) = 0"
    unfolding k by simp
  then have m: "(word_of_nat k :: guint) mod 120 = 0"
    by (simp only: unat_eq_0)
  have s1: "scan_firecode (two_frame_window k tail) 0 (n - 11) = (True, 0)"
    using assms by (intro first_scan two_frame_window_first) simp
  have s2: "scan_firecode (two_frame_window k tail) 120 (n - 11) = (True, k)"
    using assms by (intro two_frame_window_scan) simp_all
  have big: "\<not> n < 25931"
    using assms by simp
  from big m show ?thesis
    by (simp add: detect_defs n sub s1 s2 Let_def)
qed


lemma detect_second_misaligned:
  assumes "120 \<le> k" and "k mod 120 \<noteq> 0" and "k + 11 < n" and "25931 \<le> n" and "n < 2 ^ 32"
  shows "scan_firecode (two_frame_window k tail) 120 (unat (word_of_nat n :: guint) - 11) = (True, k)"
proof -
  from assms have n: "unat (word_of_nat n :: guint) = n"
    by (simp add: unat_of_nat32)
  show ?thesis
    unfolding n using assms by (intro two_frame_window_scan) simp_all
qed

text \<open>
  C4, as stated, fails: in a window of 26052 bytes with firecodes at offsets 0 and 26040
  detection succeeds with the superframe size 26040, which is 217 times 120.
\<close>

theorem detect_stream_size_counterexample:
  "gst_dabplusparse_detect_stream fresh_parser (two_frame_window 26040 1) 26052 0 =
     (True, fresh_parser\<lparr>superframe_size := 26040, min_frame_size := 26040\<rparr>, 0) \<and>
   length (two_frame_window 26040 1) = 26052 \<and>
   \<not> unat (26040 :: guint) \<le> 216 * 120"
  using detect_two_frame_window [of 26040 26052 fresh_parser 1 0]
  by (simp add: two_frame_window_def example_length)

theorem detect_stream_size_witness:
  "gst_dabplusparse_detect_stream fresh_parser (two_frame_window 120 25800) 25931 0 =
     (True, fresh_parser\<lparr>superframe_size := 120, min_frame_size := 120\<rparr>, 0) \<and>
   unat (120 :: guint) mod 120 = 0 \<and> unat (120 :: guint) < unat (25931 :: guint) - 11 \<and>
   gst_dabplusparse_check_firecode (drop 120 (two_frame_window 120 25800)) \<and>
   scan_firecode (two_frame_window 121 25799) 120 (unat (25931 :: guint) - 11) = (True, 121) \<and>
   gst_dabplusparse_detect_stream fresh_parser (two_frame_window 121 25799) 25931 0 =
     (False, fresh_parser, 121) \<and>
   scan_firecode (one_frame_window 25920) 120 (unat (25931 :: guint) - 11) = (False, 25920) \<and>
   gst_dabplusparse_detect_stream fresh_parser (one_frame_window 25920) 25931 0 =
     (False, fresh_parser, 25920)"
proof -
  have d: "gst_dabplusparse_detect_stream fresh_parser (two_frame_window 120 25800) 25931 0 =
     (True, fresh_parser\<lparr>superframe_size := 120, min_frame_size := 120\<rparr>, 0)"
    using detect_two_frame_window [of 120 25931 fresh_parser 25800 0] by simp
  have s2: "scan_firecode (two_frame_window 121 25799) 120 (unat (25931 :: guint) - 11) = (True, 121)"
    using detect_second_misaligned [of 121 25931 25799] by simp
  have s3: "scan_firecode (one_frame_window 25920) 120 (unat (25931 :: guint) - 11) = (False, 25920)"
    using one_frame_window_scan [of 25920 25920] by simp
  have a: "216 * 120 + 11 \<le> unat (25931 :: guint)"
    by simp
  note t = detect_stream_size [of fresh_parser _ 25931 0]
  from t [of "two_frame_window 120 25800"
        "fresh_parser\<lparr>superframe_size := 120, min_frame_size := 120\<rparr>" 0] d
  have 1: "unat (120 :: guint) mod 120 = 0 \<and> unat (120 :: guint) < unat (25931 :: guint) - 11 \<and>
      gst_dabplusparse_check_firecode (drop 120 (two_frame_window 120 25800))"
    by simp
  from t [of "two_frame_window 121 25799" _ _ True 121] a s2 two_frame_window_first [of 121 25799]
  have 2: "gst_dabplusparse_detect_stream fresh_parser (two_frame_window 121 25799) 25931 0 =
     (False, fresh_parser, 121)"
    by simp
  from t [of "one_frame_window 25920" _ _ False 25920] a s3 one_frame_window_first [of 25920]
  have 3: "gst_dabplusparse_detect_stream fresh_parser (one_frame_window 25920) 25931 0 =
     (False, fresh_parser, 25920)"
    by simp
  from d 1 2 3 s2 s3 show ?thesis
    by blast
qed

section \<open>Proofs: the frame handler\<close>

lemma parse_succeeds: "fst (gst_dabplusparse_parse_superframe_header hdr data framesize)"
  by (simp add: gst_dabplusparse_parse_superframe_header_def parse_num_aus_def
      parse_au_starts_def set_au_start_def Let_def split: prod.splits)

lemma sync_short:
  assumes "i_header_type p = DABPLUS_HEADER_SUPERFRAME"
    and "length data < unat (superframe_size p)"
  shows "handle_frame_sync env p data uninit =
    Inl \<lparr>ret = Returns (if draining env then GST_FLOW_OK else GST_FLOW_ERROR), skip = 0,
         parser = p, src_caps_set = None, finished = [], consumed = None\<rparr>"
  using assms by (simp add: handle_frame_sync_def)

lemma sync_decoded:
  assumes "i_header_type p = DABPLUS_HEADER_SUPERFRAME"
    and "unat (superframe_size p) \<le> length data"
    and "gst_dabplusparse_check_firecode data"
  shows "handle_frame_sync env p data uninit =
    Inr (p, snd (gst_dabplusparse_parse_superframe_header uninit data (superframe_size p)), 0)"
proof -
  obtain ok h where ph: "gst_dabplusparse_parse_superframe_header uninit data (superframe_size p) = (ok, h)"
    by (cases "gst_dabplusparse_parse_superframe_header uninit data (superframe_size p)")
  with parse_succeeds [of uninit data "superframe_size p"] have "ok"
    by simp
  with assms ph show ?thesis
    by (simp add: handle_frame_sync_def)
qed

text \<open>
  C2, as amended. In the synchronized state a window shorter than the superframe size
  ends the call before anything is decoded: with \<open>GST_FLOW_OK\<close>, nothing skipped and the
  parser object unchanged when the host is draining, and with \<open>GST_FLOW_ERROR\<close>
  otherwise.
\<close>

theorem short_window_result:
  assumes "i_header_type p = DABPLUS_HEADER_SUPERFRAME"
    and "length data < unat (superframe_size p)"
  shows "gst_dabplusparse_handle_frame env p data uninit =
    \<lparr>ret = Returns (if draining env then GST_FLOW_OK else GST_FLOW_ERROR), skip = 0,
     parser = p, src_caps_set = None, finished = [], consumed = None\<rparr>"
  by (simp add: gst_dabplusparse_handle_frame_def sync_short [OF assms])

lemma synchronized_parser_fields:
  "i_header_type (synchronized_parser n) = DABPLUS_HEADER_SUPERFRAME"
  "o_header_type (synchronized_parser n) = DABPLUS_HEADER_ADTS"
  "superframe_size (synchronized_parser n) = n"
  "superframe_header (synchronized_parser n) = memset_0377_header"
  by (simp_all add: synchronized_parser_def fresh_parser_def)

theorem short_window_result_witness:
  "i_header_type (synchronized_parser 120) = DABPLUS_HEADER_SUPERFRAME \<and>
   length example_frame_start < unat (superframe_size (synchronized_parser 120)) \<and>
   ret (gst_dabplusparse_handle_frame (example_host\<lparr>draining := True\<rparr>) (synchronized_parser 120)
          example_frame_start memset_0377_header) = Returns GST_FLOW_OK \<and>
   parser (gst_dabplusparse_handle_frame (example_host\<lparr>draining := True\<rparr>) (synchronized_parser 120)
          example_frame_start memset_0377_header) = synchronized_parser 120"
proof -
  have 1: "i_header_type (synchronized_parser 120) = DABPLUS_HEADER_SUPERFRAME"
    by (simp add: synchronized_parser_fields)
  have 2: "length example_frame_start < unat (superframe_size (synchronized_parser 120))"
    by (simp add: synchronized_parser_fields example_frame_start_def)
  from short_window_result [OF 1 2, of "example_host\<lparr>draining := True\<rparr>" memset_0377_header] 1 2
  show ?thesis
    by simp
qed

text \<open>
  C2, as stated, fails: the host of the example is not draining, the parser is
  synchronized on superframes of 120 bytes, the window holds 11 bytes, and the call
  returns \<open>GST_FLOW_ERROR\<close>.
\<close>

theorem short_window_counterexample:
  "i_header_type (synchronized_parser 120) = DABPLUS_HEADER_SUPERFRAME \<and>
   length example_frame_start < unat (superframe_size (synchronized_parser 120)) \<and>
   \<not> draining example_host \<and>
   ret (gst_dabplusparse_handle_frame example_host (synchronized_parser 120)
          example_frame_start memset_0377_header) = Returns GST_FLOW_ERROR"
  by (simp add: gst_dabplusparse_handle_frame_def handle_frame_sync_def synchronized_parser_fields
      example_frame_start_def example_host_def)

text \<open>
  C7, as amended. The resolver has no error result: it writes the channel count
  \<open>aac_channel_mode + 1\<close> for the surround configuration 0, 6 for 1, 8 for 2 and 0 for
  every other value. With the channel count 0 an ADTS header cannot be built: the
  channel configuration lookup fails.
\<close>

theorem resolve_channels:
  "(mpeg_surround_config hdr = 0 \<longrightarrow>
      channels (resolve_audio_params p hdr) = sint (aac_channel_mode hdr + 1)) \<and>
   (mpeg_surround_config hdr = 1 \<longrightarrow> channels (resolve_audio_params p hdr) = 6) \<and>
   (mpeg_surround_config hdr = 2 \<longrightarrow> channels (resolve_audio_params p hdr) = 8) \<and>
   (mpeg_surround_config hdr \<notin> {0, 1, 2} \<longrightarrow>
      channels (resolve_audio_params p hdr) = 0 \<and>
      (gst_dabplusparse_get_audio_profile_object_type profile_string \<noteq> G_MAXUINT8 \<longrightarrow>
         gst_dabplusparse_prepend_adts_headers profile_string (resolve_audio_params p hdr) buffer
           = Inl UnsupportedChannelCount))"
  by (auto simp add: resolve_audio_params_def Let_def word_gt_0
      gst_dabplusparse_prepend_adts_headers_def
      gst_dabplusparse_get_audio_channel_configuration_def G_MAXUINT8_def)

theorem resolve_channels_witness:
  "channels (resolve_audio_params fresh_parser example_header) = 1 \<and>
   channels (resolve_audio_params fresh_parser (example_header\<lparr>mpeg_surround_config := 1\<rparr>)) = 6 \<and>
   channels (resolve_audio_params fresh_parser (example_header\<lparr>mpeg_surround_config := 2\<rparr>)) = 8 \<and>
   channels (resolve_audio_params fresh_parser (example_header\<lparr>mpeg_surround_config := 3\<rparr>)) = 0 \<and>
   gst_dabplusparse_prepend_adts_headers (Some ''lc'')
     (resolve_audio_params fresh_parser (example_header\<lparr>mpeg_surround_config := 3\<rparr>)) []
     = Inl UnsupportedChannelCount"
  using resolve_channels [of example_header fresh_parser "Some ''lc''" "[]"]
    resolve_channels [of "example_header\<lparr>mpeg_surround_config := 1\<rparr>" fresh_parser "Some ''lc''" "[]"]
    resolve_channels [of "example_header\<lparr>mpeg_surround_config := 2\<rparr>" fresh_parser "Some ''lc''" "[]"]
    resolve_channels [of "example_header\<lparr>mpeg_surround_config := 3\<rparr>" fresh_parser "Some ''lc''" "[]"]
  by (simp add: example_header_def gst_dabplusparse_get_audio_profile_object_type_def G_MAXUINT8_def)

text \<open>
  C7, as stated, fails: a superframe whose header carries the surround configuration 3
  is decoded, its caps are set with the raw format, both access units are finished and
  the call returns \<open>GST_FLOW_OK\<close>, with the channel count 0 in the parser object.
\<close>

theorem surround_config_counterexample:
  "mpeg_surround_config (superframe_header (parser (gst_dabplusparse_handle_frame raw_only_host
      (synchronized_parser 120) surround3_superframe memset_0377_header))) = 3 \<and>
   channels (parser (gst_dabplusparse_handle_frame raw_only_host
      (synchronized_parser 120) surround3_superframe memset_0377_header)) = 0 \<and>
   src_caps_set (gst_dabplusparse_handle_frame raw_only_host
      (synchronized_parser 120) surround3_superframe memset_0377_header) = Some True \<and>
   length (finished (gst_dabplusparse_handle_frame raw_only_host
      (synchronized_parser 120) surround3_superframe memset_0377_header)) = 2 \<and>
   ret (gst_dabplusparse_handle_frame raw_only_host
      (synchronized_parser 120) surround3_superframe memset_0377_header) = Returns GST_FLOW_OK"
  by code_simp

lemma emit_aus_header_failure:
  assumes "k \<le> i" and "i < unat (num_aus hdr)"
    and "emit_au env p hdr data i = AuHeaderFailed e"
    and "\<forall>j. k \<le> j \<and> j < i \<longrightarrow> (\<exists>out. emit_au env p hdr data j = AuFinished out GST_FLOW_OK)"
  shows "\<exists>bufs. emit_aus env p hdr data k acc = (Some (Returns GST_FLOW_ERROR), acc @ bufs) \<and>
           length bufs = i - k \<and>
           (\<forall>j. k \<le> j \<and> j < i \<longrightarrow> emit_au env p hdr data j = AuFinished (bufs ! (j - k)) GST_FLOW_OK)"
  using assms
proof (induction "i - k" arbitrary: k acc)
  case 0
  then have "k = i"
    by simp
  with 0 show ?case
    by (auto simp add: emit_aus.simps [of env p hdr data i])
next
  case (Suc d)
  then have lt: "k < i"
    by simp
  with Suc.prems obtain out where out: "emit_au env p hdr data k = AuFinished out GST_FLOW_OK"
    by auto
  from lt Suc.prems have kn: "k < unat (num_aus hdr)"
    by simp
  have step: "emit_aus env p hdr data k acc = emit_aus env p hdr data (k + 1) (acc @ [out])"
    using kn out by (simp add: emit_aus.simps [of env p hdr data k])
  have "\<exists>bufs. emit_aus env p hdr data (k + 1) (acc @ [out]) =
            (Some (Returns GST_FLOW_ERROR), (acc @ [out]) @ bufs) \<and>
           length bufs = i - (k + 1) \<and>
           (\<forall>j. k + 1 \<le> j \<and> j < i \<longrightarrow>
              emit_au env p hdr data j = AuFinished (bufs ! (j - (k + 1))) GST_FLOW_OK)"
    using Suc.hyps(2) Suc.prems lt by (intro Suc.hyps(1)) auto
  then obtain bufs where b: "emit_aus env p hdr data (k + 1) (acc @ [out]) =
            (Some (Returns GST_FLOW_ERROR), (acc @ [out]) @ bufs)"
    and l: "length bufs = i - (k + 1)"
    and f: "\<forall>j. k + 1 \<le> j \<and> j < i \<longrightarrow>
              emit_au env p hdr data j = AuFinished (bufs ! (j - (k + 1))) GST_FLOW_OK"
    by blast
  have "emit_aus env p hdr data k acc = (Some (Returns GST_FLOW_ERROR), acc @ (out # bufs))"
    using step b by simp
  moreover have "length (out # bufs) = i - k"
    using l lt by simp
  moreover have "emit_au env p hdr data j = AuFinished ((out # bufs) ! (j - k)) GST_FLOW_OK"
    if "k \<le> j \<and> j < i" for j
  proof (cases "j = k")
    case True
    with out show ?thesis
      by simp
  next
    case False
    with that have "k + 1 \<le> j \<and> j < i"
      by simp
    with f have "emit_au env p hdr data j = AuFinished (bufs ! (j - (k + 1))) GST_FLOW_OK"
      by blast
    moreover from False that have "(out # bufs) ! (j - k) = bufs ! (j - (k + 1))"
      by (simp add: nth_Cons')
    ultimately show ?thesis
      by simp
  qed
  ultimately show ?case
    by blast
qed

lemma handle_frame_header_failure:
  assumes sync: "handle_frame_sync env p data uninit = Inr (p1, hdr, sk)"
    and caps: "handle_frame_caps env p1 hdr = (caps_res, p3)"
    and ok: "caps_res \<noteq> Some False"
    and out: "o_header_type p3 = DABPLUS_HEADER_ADTS \<or> o_header_type p3 = DABPLUS_HEADER_RAW"
    and i: "i < unat (num_aus hdr)"
    and fail: "emit_au env p3 hdr data i = AuHeaderFailed e"
    and before: "\<forall>j<i. \<exists>out. emit_au env p3 hdr data j = AuFinished out GST_FLOW_OK"
  shows "ret (gst_dabplusparse_handle_frame env p data uninit) = Returns GST_FLOW_ERROR \<and>
         consumed (gst_dabplusparse_handle_frame env p data uninit) = None \<and>
         length (finished (gst_dabplusparse_handle_frame env p data uninit)) = i \<and>
         (\<forall>j<i. emit_au env p3 hdr data j =
            AuFinished (finished (gst_dabplusparse_handle_frame env p data uninit) ! j) GST_FLOW_OK)"
proof -
  from before have "\<forall>j. 0 \<le> j \<and> j < i \<longrightarrow> (\<exists>out. emit_au env p3 hdr data j = AuFinished out GST_FLOW_OK)"
    by simp
  from emit_aus_header_failure [OF _ i fail this, of "[]"]
  obtain bufs where b: "emit_aus env p3 hdr data 0 [] = (Some (Returns GST_FLOW_ERROR), bufs)"
    and l: "length bufs = i"
    and f: "\<forall>j<i. emit_au env p3 hdr data j = AuFinished (bufs ! j) GST_FLOW_OK"
    by auto
  from ok out have "gst_dabplusparse_handle_frame env p data uninit =
      \<lparr>ret = Returns GST_FLOW_ERROR, skip = sk, parser = p3,
       src_caps_set = caps_res, finished = bufs, consumed = None\<rparr>"
    by (auto simp add: gst_dabplusparse_handle_frame_def sync caps b)
  with l f show ?thesis
    by simp
qed

text \<open>
  C8, as amended. When the frame handler has decoded a header and set the caps, and the
  ADTS header of the access unit with index \<open>i\<close> cannot be built while the units before
  it were finished with \<open>GST_FLOW_OK\<close>, the call returns \<open>GST_FLOW_ERROR\<close> and the
  superframe is not finished, but the output buffers of the \<open>i\<close> units before the
  failing one have been handed to \<open>gst_base_parse_finish_frame\<close>; none is when the
  first unit fails.
\<close>

theorem emitter_failure_result:
  assumes "handle_frame_sync env p data uninit = Inr (p1, hdr, sk)"
    and "handle_frame_caps env p1 hdr = (caps_res, p3)"
    and "caps_res \<noteq> Some False"
    and "o_header_type p3 = DABPLUS_HEADER_ADTS \<or> o_header_type p3 = DABPLUS_HEADER_RAW"
    and "i < unat (num_aus hdr)"
    and "emit_au env p3 hdr data i = AuHeaderFailed e"
    and "\<forall>j<i. \<exists>out. emit_au env p3 hdr data j = AuFinished out GST_FLOW_OK"
  shows "ret (gst_dabplusparse_handle_frame env p data uninit) = Returns GST_FLOW_ERROR \<and>
         consumed (gst_dabplusparse_handle_frame env p data uninit) = None \<and>
         length (finished (gst_dabplusparse_handle_frame env p data uninit)) = i \<and>
         (\<forall>j<i. emit_au env p3 hdr data j =
            AuFinished (finished (gst_dabplusparse_handle_frame env p data uninit) ! j) GST_FLOW_OK)"
  using assms by (rule handle_frame_header_failure)

lemma parse_superframe_header_cong:
  assumes "\<And>i. i < 11 \<Longrightarrow> xs ! i = ys ! i"
  shows "gst_dabplusparse_parse_superframe_header h xs fs =
         gst_dabplusparse_parse_superframe_header h ys fs"
proof -
  have e: "xs ! 0 = ys ! 0" "xs ! 1 = ys ! 1" "xs ! 2 = ys ! 2" "xs ! 3 = ys ! 3"
    "xs ! 4 = ys ! 4" "xs ! 5 = ys ! 5" "xs ! 6 = ys ! 6" "xs ! 7 = ys ! 7"
    "xs ! 8 = ys ! 8" "xs ! 9 = ys ! 9" "xs ! 10 = ys ! 10"
    by (rule assms, simp)+
  show ?thesis
    unfolding gst_dabplusparse_parse_superframe_header_def parse_flags_def parse_au_starts_def
      starts_case_6_def starts_case_4_def starts_case_3_def starts_case_2_def e ..
qed

lemma large_length: "length large_superframe = 18000"
  by (simp add: large_superframe_def)

lemma large_prefix:
  "i < 11 \<Longrightarrow> large_superframe ! i = [0xa0, 0x84, 0x20, 0x06, 0x40, 0, 0, 0, 0, 0, 0] ! i"
  unfolding large_superframe_def by (subst nth_append) simp

lemma large_firecode: "gst_dabplusparse_check_firecode large_superframe"
proof -
  have "gst_dabplusparse_check_firecode [0xa0, 0x84, 0x20, 0x06, 0x40, 0, 0, 0, 0, 0, 0]"
    by code_simp
  then show ?thesis
    using check_firecode_cong [OF large_prefix] by simp
qed

lemma large_parse:
  "gst_dabplusparse_parse_superframe_header memset_0377_header large_superframe 18000 =
     (True, large_header)"
proof -
  have "gst_dabplusparse_parse_superframe_header memset_0377_header
          [0xa0, 0x84, 0x20, 0x06, 0x40, 0, 0, 0, 0, 0, 0] 18000 = (True, large_header)"
    by code_simp
  then show ?thesis
    using parse_superframe_header_cong [OF large_prefix] by simp
qed

lemma large_sync:
  "handle_frame_sync example_host (synchronized_parser 18000) large_superframe memset_0377_header =
     Inr (synchronized_parser 18000, large_header, 0)"
  using sync_decoded [of "synchronized_parser 18000" large_superframe example_host memset_0377_header]
  by (simp add: synchronized_parser_fields large_length large_firecode large_parse)

lemma large_caps:
  "handle_frame_caps example_host (synchronized_parser 18000) large_header =
     (Some True, (synchronized_parser 18000)\<lparr>object_type := 1, sample_rate := 16000, channels := 1,
        superframe_header := large_header\<rparr>)"
  by code_simp

lemma large_au0:
  "\<exists>out. emit_au example_host ((synchronized_parser 18000)\<lparr>object_type := 1, sample_rate := 16000,
       channels := 1, superframe_header := large_header\<rparr>) large_header large_superframe 0 =
     AuFinished out GST_FLOW_OK"
  by (simp add: emit_au_def gst_buffer_copy_region_def large_header_def large_length
      synchronized_parser_fields gst_dabplusparse_prepend_adts_headers_def Let_def
      gst_dabplusparse_get_audio_profile_object_type_def
      gst_dabplusparse_get_audio_channel_configuration_def
      gst_dabplusparse_get_audio_sampling_frequency_index_def
      G_MAXUINT8_def ADTS_HEADER_LENGTH_def example_host_def)

lemma large_au1:
  "emit_au example_host ((synchronized_parser 18000)\<lparr>object_type := 1, sample_rate := 16000,
       channels := 1, superframe_header := large_header\<rparr>) large_header large_superframe 1 =
     AuHeaderFailed FrameTooLarge"
  by (simp add: emit_au_def gst_buffer_copy_region_def large_header_def large_length
      synchronized_parser_fields gst_dabplusparse_prepend_adts_headers_def Let_def
      gst_dabplusparse_get_audio_profile_object_type_def
      gst_dabplusparse_get_audio_channel_configuration_def
      gst_dabplusparse_get_audio_sampling_frequency_index_def
      G_MAXUINT8_def ADTS_HEADER_LENGTH_def example_host_def)

lemma large_before: "\<forall>j<1. \<exists>out. emit_au example_host ((synchronized_parser 18000)\<lparr>object_type := 1,
       sample_rate := 16000, channels := 1, superframe_header := large_header\<rparr>)
       large_header large_superframe j = AuFinished out GST_FLOW_OK"
  using large_au0 by simp

lemma large_reaches_loop:
  "Some True \<noteq> Some False"
  "o_header_type ((synchronized_parser 18000)\<lparr>object_type := 1, sample_rate := 16000, channels := 1,
        superframe_header := large_header\<rparr>) = DABPLUS_HEADER_ADTS \<or>
   o_header_type ((synchronized_parser 18000)\<lparr>object_type := 1, sample_rate := 16000, channels := 1,
        superframe_header := large_header\<rparr>) = DABPLUS_HEADER_RAW"
  "1 < unat (num_aus large_header)"
  by (simp_all add: synchronized_parser_fields large_header_def)

theorem emitter_failure_result_witness:
  "handle_frame_sync example_host (synchronized_parser 18000) large_superframe memset_0377_header =
     Inr (synchronized_parser 18000, large_header, 0) \<and>
   emit_au example_host ((synchronized_parser 18000)\<lparr>object_type := 1, sample_rate := 16000,
       channels := 1, superframe_header := large_header\<rparr>) large_header large_superframe 1 =
     AuHeaderFailed FrameTooLarge \<and>
   ret (gst_dabplusparse_handle_frame example_host (synchronized_parser 18000)
          large_superframe memset_0377_header) = Returns GST_FLOW_ERROR \<and>
   consumed (gst_dabplusparse_handle_frame example_host (synchronized_parser 18000)
          large_superframe memset_0377_header) = None \<and>
   length (finished (gst_dabplusparse_handle_frame example_host (synchronized_parser 18000)
          large_superframe memset_0377_header)) = 1"
  using emitter_failure_result [OF large_sync large_caps large_reaches_loop large_au1 large_before]
    large_sync large_au1
  by simp

text \<open>
  C8, as stated, fails: in a superframe of 18000 bytes whose second access unit holds
  16398 bytes, the first unit is finished before the ADTS header of the second one fails
  with \<open>FrameTooLarge\<close>; the call returns \<open>GST_FLOW_ERROR\<close> with one output buffer
  already handed on.
\<close>

theorem emitter_failure_counterexample:
  "ret (gst_dabplusparse_handle_frame example_host (synchronized_parser 18000)
          large_superframe memset_0377_header) = Returns GST_FLOW_ERROR \<and>
   length (finished (gst_dabplusparse_handle_frame example_host (synchronized_parser 18000)
          large_superframe memset_0377_header)) = 1 \<and>
   finished (gst_dabplusparse_handle_frame example_host (synchronized_parser 18000)
          large_superframe memset_0377_header) \<noteq> []"
proof -
  note f = handle_frame_header_failure
    [OF large_sync large_caps large_reaches_loop large_au1 large_before]
  then have "length (finished (gst_dabplusparse_handle_frame example_host (synchronized_parser 18000)
          large_superframe memset_0377_header)) = 1"
    by simp
  then have "finished (gst_dabplusparse_handle_frame example_host (synchronized_parser 18000)
          large_superframe memset_0377_header) \<noteq> []"
    by auto
  with f show ?thesis
    by simp
qed

section \<open>Proofs: the stored header after a reset\<close>


























end
